theory Spec2Isabelle
  imports Complex_Main
begin

section \<open>The metric service: joining the y_true and y_pred queues\<close>

text \<open>
  This theory embeds \<^verbatim>\<open>src/services/metric/metric.py\<close>: the closures
  \<^verbatim>\<open>try_finalize\<close>, \<^verbatim>\<open>cleanup_old_records\<close>, \<^verbatim>\<open>on_y_true\<close> and
  \<^verbatim>\<open>on_y_pred\<close> of \<^verbatim>\<open>main\<close>, and \<^verbatim>\<open>append_metric_row\<close>.

  Modelling decisions.
  \<^item> Python floats (values, \<^verbatim>\<open>time.time()\<close>) are real numbers: rounding, NaN and
    the infinities are outside the model.
  \<^item> The two dictionaries \<^verbatim>\<open>buffer\<close> and \<^verbatim>\<open>buffer_ts\<close> are maps from keys to
    values; the inner dictionary \<^verbatim>\<open>{"y_true": ..., "y_pred": ...}\<close> is a record of two
    optional numbers.
  \<^item> The CSV file is the list of the rows appended to it (the header row is left out).
  \<^item> The channel is the list of the calls of \<^verbatim>\<open>basic_ack\<close> and \<^verbatim>\<open>basic_nack\<close> that
    the handlers make on it, whether or not a call returns. A call of \<^verbatim>\<open>basic_ack\<close> may
    raise: it is made inside the \<^verbatim>\<open>try\<close> block, so the \<^verbatim>\<open>except\<close> clause then calls
    \<^verbatim>\<open>basic_nack\<close>. The call of \<^verbatim>\<open>basic_nack\<close> is the last statement of a handler;
    the model covers the deliveries whose handler returns, so that call returns.
  \<^item> An exception is a value: a block of statements returns the exception raised, if
    any, together with the state reached at that point, since Python does not undo the
    mutations made before a raise.
  \<^item> What the environment decides for one delivery is an argument of the handler: the
    two readings of the clock, the outcome of the write to the CSV file and the outcome
    of the call of \<^verbatim>\<open>basic_ack\<close>.
  \<^item> The body of a message is the value \<^verbatim>\<open>json.loads(body.decode("utf-8"))\<close> returns,
    or nothing when that call raises.
\<close>

subsection \<open>Decoding a message\<close>

datatype json =
    JNull
  | JBool bool
  | JInt int
  | JFloat real
  | JStr string
  | JArr "json list"
  | JObj "(string \<times> json) list"

datatype error =
    JSONDecodeError
  | KeyError
  | TypeError
  | ValueError
  | OverflowError
  | OSError
  | AMQPError

text \<open>
  The parts of Python's built-in \<^verbatim>\<open>str\<close> and \<^verbatim>\<open>float\<close> that are not written out
  below are parameters: the text of a float, the text of a list or of a dictionary, and
  the parsing of a string as a float (nothing when \<^verbatim>\<open>float\<close> raises ValueError).
\<close>

record pylib =
  float_repr :: "real \<Rightarrow> string"
  container_repr :: "json \<Rightarrow> string"
  float_of_str :: "string \<Rightarrow> real option"

definition digit_char :: "nat \<Rightarrow> char" where
  "digit_char d = ''0123456789'' ! d"

fun nat_str :: "nat \<Rightarrow> string" where
  "nat_str n = (if n < 10 then [digit_char n] else nat_str (n div 10) @ [digit_char (n mod 10)])"

declare nat_str.simps [simp del]

definition int_str :: "int \<Rightarrow> string" where
  "int_str i = (if i < 0 then CHR ''-'' # nat_str (nat (- i)) else nat_str (nat i))"

text \<open>\<^verbatim>\<open>str(x)\<close> for a value that \<^verbatim>\<open>json.loads\<close> returned.\<close>

fun py_str :: "pylib \<Rightarrow> json \<Rightarrow> string" where
  "py_str lib JNull = ''None''"
| "py_str lib (JBool b) = (if b then ''True'' else ''False'')"
| "py_str lib (JInt i) = int_str i"
| "py_str lib (JFloat r) = float_repr lib r"
| "py_str lib (JStr s) = s"
| "py_str lib (JArr xs) = container_repr lib (JArr xs)"
| "py_str lib (JObj kvs) = container_repr lib (JObj kvs)"

text \<open>
  \<^verbatim>\<open>float(x)\<close>. An integer that rounds to \<open>2 ^ 1024\<close> or beyond raises OverflowError;
  \<open>None\<close>, a list and a dictionary raise TypeError; a string is parsed.
\<close>

definition float_max_int :: int where
  "float_max_int = 2 ^ 1024 - 2 ^ 970"

fun py_float :: "pylib \<Rightarrow> json \<Rightarrow> error + real" where
  "py_float lib JNull = Inl TypeError"
| "py_float lib (JBool b) = Inr (if b then 1 else 0)"
| "py_float lib (JInt i) = (if \<bar>i\<bar> < float_max_int then Inr (real_of_int i) else Inl OverflowError)"
| "py_float lib (JFloat r) = Inr r"
| "py_float lib (JStr s) = (case float_of_str lib s of None \<Rightarrow> Inl ValueError | Some r \<Rightarrow> Inr r)"
| "py_float lib (JArr xs) = Inl TypeError"
| "py_float lib (JObj kvs) = Inl TypeError"

text \<open>
  \<^verbatim>\<open>msg[key]\<close> for a string key: KeyError when a dictionary lacks the key, TypeError
  when \<^verbatim>\<open>msg\<close> is not a dictionary. The pairs of \<open>JObj\<close> are the items of the
  dictionary, so their keys are distinct.
\<close>

fun subscript :: "json \<Rightarrow> string \<Rightarrow> error + json" where
  "subscript (JObj kvs) key = (case map_of kvs key of None \<Rightarrow> Inl KeyError | Some v \<Rightarrow> Inr v)"
| "subscript _ key = Inl TypeError"

text \<open>
  The first three statements of both handlers:
  \<^verbatim>\<open>msg = json.loads(body.decode("utf-8")); message_id = str(msg["id"]);
  val = float(msg["body"])\<close>.
\<close>

definition decode_message :: "pylib \<Rightarrow> json option \<Rightarrow> error + (string \<times> real)" where
  "decode_message lib body =
     (case body of
        None \<Rightarrow> Inl JSONDecodeError
      | Some msg \<Rightarrow>
          (case subscript msg ''id'' of
             Inl e \<Rightarrow> Inl e
           | Inr i \<Rightarrow>
               (let message_id = py_str lib i in
                case subscript msg ''body'' of
                  Inl e \<Rightarrow> Inl e
                | Inr b \<Rightarrow>
                    (case py_float lib b of
                       Inl e \<Rightarrow> Inl e
                     | Inr val \<Rightarrow> Inr (message_id, val)))))"

subsection \<open>The state\<close>

record entry =
  y_true :: "real option"
  y_pred :: "real option"

type_synonym row = "string \<times> real \<times> real \<times> real"

datatype chan_op = Basic_ack nat | Basic_nack nat bool

record world =
  buffer :: "string \<rightharpoonup> entry"
  buffer_ts :: "string \<rightharpoonup> real"
  metric_log :: "row list"
  channel :: "chan_op list"

definition init_world :: world where
  "init_world = \<lparr>buffer = Map.empty, buffer_ts = Map.empty, metric_log = [], channel = []\<rparr>"

text \<open>
  The outcome of one call of \<^verbatim>\<open>append_metric_row\<close>: the row is written and the call
  returns, or the call raises before the row reaches the file, or it raises after that
  (in \<^verbatim>\<open>flush\<close> or on closing the file).
\<close>

datatype io_outcome = Written | Failed_before_write | Failed_after_write

text \<open>The outcome of one call of \<^verbatim>\<open>ch.basic_ack\<close>: it returns, or it raises.\<close>

datatype call_outcome = Returns | Raises

record env =
  clock_insert :: real
  clock_sweep :: real
  csv_io :: io_outcome
  ack_call :: call_outcome

definition basic_ack :: "call_outcome \<Rightarrow> nat \<Rightarrow> world \<Rightarrow> error option \<times> world" where
  "basic_ack outcome delivery_tag w =
     (case outcome of
        Returns \<Rightarrow> (None, w\<lparr>channel := channel w @ [Basic_ack delivery_tag]\<rparr>)
      | Raises \<Rightarrow> (Some AMQPError, w\<lparr>channel := channel w @ [Basic_ack delivery_tag]\<rparr>))"

definition basic_nack :: "nat \<Rightarrow> bool \<Rightarrow> world \<Rightarrow> world" where
  "basic_nack delivery_tag requeue w = w\<lparr>channel := channel w @ [Basic_nack delivery_tag requeue]\<rparr>"

subsection \<open>The closures of main\<close>

definition append_metric_row :: "io_outcome \<Rightarrow> row \<Rightarrow> world \<Rightarrow> error option \<times> world" where
  "append_metric_row io r w =
     (case io of
        Written \<Rightarrow> (None, w\<lparr>metric_log := metric_log w @ [r]\<rparr>)
      | Failed_before_write \<Rightarrow> (Some OSError, w)
      | Failed_after_write \<Rightarrow> (Some OSError, w\<lparr>metric_log := metric_log w @ [r]\<rparr>))"

definition try_finalize :: "io_outcome \<Rightarrow> string \<Rightarrow> world \<Rightarrow> error option \<times> world" where
  "try_finalize io message_id w =
     (case buffer w message_id of
        None \<Rightarrow> (None, w)
      | Some e \<Rightarrow>
          (case y_true e of
             None \<Rightarrow> (None, w)
           | Some y_true_val \<Rightarrow>
               (case y_pred e of
                  None \<Rightarrow> (None, w)
                | Some y_pred_val \<Rightarrow>
                    (let absolute_error = \<bar>y_true_val - y_pred_val\<bar> in
                     case append_metric_row io (message_id, y_true_val, y_pred_val, absolute_error) w of
                       (Some err, w1) \<Rightarrow> (Some err, w1)
                     | (None, w1) \<Rightarrow>
                         (None, w1\<lparr>buffer := (buffer w1)(message_id := None),
                                    buffer_ts := (buffer_ts w1)(message_id := None)\<rparr>)))))"

text \<open>
  The first loop of \<^verbatim>\<open>cleanup_old_records\<close> collects in \<^verbatim>\<open>to_delete\<close> the keys of
  \<^verbatim>\<open>buffer_ts\<close> with \<^verbatim>\<open>now - ts > buffer_ttl_seconds\<close>; the second loop deletes each of
  them from both dictionaries.
\<close>

definition to_delete :: "int \<Rightarrow> real \<Rightarrow> world \<Rightarrow> string \<Rightarrow> bool" where
  "to_delete buffer_ttl_seconds now w message_id =
     (case buffer_ts w message_id of
        None \<Rightarrow> False
      | Some ts \<Rightarrow> now - ts > real_of_int buffer_ttl_seconds)"

definition cleanup_old_records :: "int \<Rightarrow> real \<Rightarrow> world \<Rightarrow> world" where
  "cleanup_old_records buffer_ttl_seconds now w =
     w\<lparr>buffer := (\<lambda>message_id. if to_delete buffer_ttl_seconds now w message_id then None
                                 else buffer w message_id),
       buffer_ts := (\<lambda>message_id. if to_delete buffer_ttl_seconds now w message_id then None
                                    else buffer_ts w message_id)\<rparr>"

text \<open>
  The \<^verbatim>\<open>try\<close> block of \<^verbatim>\<open>on_y_true\<close> after the decoding. The subscription
  \<^verbatim>\<open>buffer[message_id]\<close> raises KeyError on a missing key.
\<close>

definition on_y_true_body :: "int \<Rightarrow> env \<Rightarrow> nat \<Rightarrow> string \<Rightarrow> real \<Rightarrow> world \<Rightarrow> error option \<times> world" where
  "on_y_true_body buffer_ttl_seconds ev delivery_tag message_id y_true_val w =
     (let w1 = (if buffer w message_id = None
                then w\<lparr>buffer := (buffer w)(message_id \<mapsto> \<lparr>y_true = None, y_pred = None\<rparr>),
                       buffer_ts := (buffer_ts w)(message_id \<mapsto> clock_insert ev)\<rparr>
                else w)
      in case buffer w1 message_id of
           None \<Rightarrow> (Some KeyError, w1)
         | Some e \<Rightarrow>
             (let w2 = w1\<lparr>buffer := (buffer w1)(message_id \<mapsto> e\<lparr>y_true := Some y_true_val\<rparr>)\<rparr>
              in case try_finalize (csv_io ev) message_id w2 of
                   (Some err, w3) \<Rightarrow> (Some err, w3)
                 | (None, w3) \<Rightarrow>
                     basic_ack (ack_call ev) delivery_tag
                       (cleanup_old_records buffer_ttl_seconds (clock_sweep ev) w3)))"

definition on_y_true :: "pylib \<Rightarrow> int \<Rightarrow> env \<Rightarrow> nat \<Rightarrow> json option \<Rightarrow> world \<Rightarrow> world" where
  "on_y_true lib buffer_ttl_seconds ev delivery_tag body w =
     (case decode_message lib body of
        Inl err \<Rightarrow> basic_nack delivery_tag True w
      | Inr (message_id, y_true_val) \<Rightarrow>
          (case on_y_true_body buffer_ttl_seconds ev delivery_tag message_id y_true_val w of
             (Some err, w') \<Rightarrow> basic_nack delivery_tag True w'
           | (None, w') \<Rightarrow> w'))"

definition on_y_pred_body :: "int \<Rightarrow> env \<Rightarrow> nat \<Rightarrow> string \<Rightarrow> real \<Rightarrow> world \<Rightarrow> error option \<times> world" where
  "on_y_pred_body buffer_ttl_seconds ev delivery_tag message_id y_pred_val w =
     (let w1 = (if buffer w message_id = None
                then w\<lparr>buffer := (buffer w)(message_id \<mapsto> \<lparr>y_true = None, y_pred = None\<rparr>),
                       buffer_ts := (buffer_ts w)(message_id \<mapsto> clock_insert ev)\<rparr>
                else w)
      in case buffer w1 message_id of
           None \<Rightarrow> (Some KeyError, w1)
         | Some e \<Rightarrow>
             (let w2 = w1\<lparr>buffer := (buffer w1)(message_id \<mapsto> e\<lparr>y_pred := Some y_pred_val\<rparr>)\<rparr>
              in case try_finalize (csv_io ev) message_id w2 of
                   (Some err, w3) \<Rightarrow> (Some err, w3)
                 | (None, w3) \<Rightarrow>
                     basic_ack (ack_call ev) delivery_tag
                       (cleanup_old_records buffer_ttl_seconds (clock_sweep ev) w3)))"

definition on_y_pred :: "pylib \<Rightarrow> int \<Rightarrow> env \<Rightarrow> nat \<Rightarrow> json option \<Rightarrow> world \<Rightarrow> world" where
  "on_y_pred lib buffer_ttl_seconds ev delivery_tag body w =
     (case decode_message lib body of
        Inl err \<Rightarrow> basic_nack delivery_tag True w
      | Inr (message_id, y_pred_val) \<Rightarrow>
          (case on_y_pred_body buffer_ttl_seconds ev delivery_tag message_id y_pred_val w of
             (Some err, w') \<Rightarrow> basic_nack delivery_tag True w'
           | (None, w') \<Rightarrow> w'))"

subsection \<open>Consuming the two queues\<close>

text \<open>
  \<^verbatim>\<open>basic_consume\<close> binds \<^verbatim>\<open>on_y_true\<close> to the queue y_true and \<^verbatim>\<open>on_y_pred\<close> to the
  queue y_pred; \<^verbatim>\<open>start_consuming\<close> calls one handler at a time, once per delivery.
\<close>

datatype queue = Y_true | Y_pred

record delivery =
  d_queue :: queue
  d_env :: env
  d_tag :: nat
  d_body :: "json option"

definition deliver :: "pylib \<Rightarrow> int \<Rightarrow> delivery \<Rightarrow> world \<Rightarrow> world" where
  "deliver lib buffer_ttl_seconds d w =
     (case d_queue d of
        Y_true \<Rightarrow> on_y_true lib buffer_ttl_seconds (d_env d) (d_tag d) (d_body d) w
      | Y_pred \<Rightarrow> on_y_pred lib buffer_ttl_seconds (d_env d) (d_tag d) (d_body d) w)"

fun consume :: "pylib \<Rightarrow> int \<Rightarrow> delivery list \<Rightarrow> world \<Rightarrow> world" where
  "consume lib buffer_ttl_seconds [] w = w"
| "consume lib buffer_ttl_seconds (d # ds) w =
     consume lib buffer_ttl_seconds ds (deliver lib buffer_ttl_seconds d w)"

subsection \<open>Auxiliary notions for the statements\<close>

text \<open>
  The two handlers differ in the field they write only. The notions below name the field
  of a queue, the state in which a handler calls \<^verbatim>\<open>try_finalize\<close> (the entry created
  if it was missing, then the field written), and the end of the \<^verbatim>\<open>try\<close> statement;
  the lemmas \<open>on_y_true_decoded\<close> and \<open>on_y_pred_decoded\<close> relate them to the handlers.
\<close>

definition get_side :: "queue \<Rightarrow> entry \<Rightarrow> real option" where
  "get_side q e = (case q of Y_true \<Rightarrow> y_true e | Y_pred \<Rightarrow> y_pred e)"

definition set_side :: "queue \<Rightarrow> real \<Rightarrow> entry \<Rightarrow> entry" where
  "set_side q v e = (case q of Y_true \<Rightarrow> e\<lparr>y_true := Some v\<rparr> | Y_pred \<Rightarrow> e\<lparr>y_pred := Some v\<rparr>)"

definition other_queue :: "queue \<Rightarrow> queue" where
  "other_queue q = (case q of Y_true \<Rightarrow> Y_pred | Y_pred \<Rightarrow> Y_true)"

definition upsert :: "queue \<Rightarrow> string \<Rightarrow> real \<Rightarrow> real \<Rightarrow> world \<Rightarrow> world" where
  "upsert q message_id val now w =
     (case buffer w message_id of
        None \<Rightarrow> w\<lparr>buffer_ts := (buffer_ts w)(message_id \<mapsto> now),
                   buffer := (buffer w)(message_id \<mapsto> set_side q val \<lparr>y_true = None, y_pred = None\<rparr>)\<rparr>
      | Some e \<Rightarrow> w\<lparr>buffer := (buffer w)(message_id \<mapsto> set_side q val e)\<rparr>)"

text \<open>
  The handler from the call of \<^verbatim>\<open>basic_ack\<close> on: the call, and the \<^verbatim>\<open>except\<close> clause
  when the call raises; and the calls that this adds to the channel.
\<close>

definition acknowledge :: "env \<Rightarrow> nat \<Rightarrow> world \<Rightarrow> world" where
  "acknowledge ev delivery_tag w =
     (case basic_ack (ack_call ev) delivery_tag w of
        (Some err, w4) \<Rightarrow> basic_nack delivery_tag True w4
      | (None, w4) \<Rightarrow> w4)"

definition ack_calls :: "env \<Rightarrow> nat \<Rightarrow> chan_op list" where
  "ack_calls ev delivery_tag =
     (case ack_call ev of
        Returns \<Rightarrow> [Basic_ack delivery_tag]
      | Raises \<Rightarrow> [Basic_ack delivery_tag, Basic_nack delivery_tag True])"

definition finish :: "int \<Rightarrow> env \<Rightarrow> nat \<Rightarrow> error option \<times> world \<Rightarrow> world" where
  "finish buffer_ttl_seconds ev delivery_tag r =
     (case r of
        (Some err, w3) \<Rightarrow> basic_nack delivery_tag True w3
      | (None, w3) \<Rightarrow>
          acknowledge ev delivery_tag
            (cleanup_old_records buffer_ttl_seconds (clock_sweep ev) w3))"

text \<open>The key and the value a delivery decodes to, if it decodes.\<close>

definition decoded :: "pylib \<Rightarrow> delivery \<Rightarrow> (string \<times> real) option" where
  "decoded lib d = (case decode_message lib (d_body d) of Inl err \<Rightarrow> None | Inr kv \<Rightarrow> Some kv)"

text \<open>The rows of the CSV file that bear a given id.\<close>

definition rows_for :: "string \<Rightarrow> world \<Rightarrow> row list" where
  "rows_for message_id w = filter (\<lambda>r. fst r = message_id) (metric_log w)"

text \<open>The side of a queue has not been stored for an id: no entry, or the field is unset.\<close>

definition missing :: "queue \<Rightarrow> string \<Rightarrow> world \<Rightarrow> bool" where
  "missing q message_id w =
     (case buffer w message_id of None \<Rightarrow> True | Some e \<Rightarrow> get_side q e = None)"

text \<open>
  A library instance for the closed examples: a float with an integral value prints as
  that integer followed by \<open>.0\<close>, and no string parses as a float. The examples use
  it on such values only.
\<close>

definition sample_lib :: pylib where
  "sample_lib = \<lparr>float_repr = (\<lambda>r. int_str \<lfloor>r\<rfloor> @ ''.0''),
                  container_repr = (\<lambda>j. ''[]''),
                  float_of_str = (\<lambda>s. None)\<rparr>"

text \<open>
  A delivery handled at one instant \<open>t\<close>, the CSV write and the call of \<^verbatim>\<open>basic_ack\<close>
  returning.
\<close>

definition at_time :: "real \<Rightarrow> env" where
  "at_time t = \<lparr>clock_insert = t, clock_sweep = t, csv_io = Written, ack_call = Returns\<rparr>"

definition message :: "json \<Rightarrow> json \<Rightarrow> json option" where
  "message i b = Some (JObj [(''id'', i), (''body'', b)])"

text \<open>The deliveries of the closed examples: a number for an id given as a string.\<close>

definition delivery_at :: "queue \<Rightarrow> real \<Rightarrow> nat \<Rightarrow> string \<Rightarrow> real \<Rightarrow> delivery" where
  "delivery_at q t tag k v =
     \<lparr>d_queue = q, d_env = at_time t, d_tag = tag, d_body = message (JStr k) (JFloat v)\<rparr>"

subsection \<open>The life of an entry\<close>

text \<open>
  What one delivery does to an id, read off the handler: the id arrives when the message
  decodes to it (its value is then stored); it is finalized when \<^verbatim>\<open>try_finalize\<close>
  finds both of its values and the write returns, so that the \<^verbatim>\<open>del\<close> statements are
  reached; it is evicted when the sweep is reached, the id has an entry at that point
  and is put on \<^verbatim>\<open>to_delete\<close>.
\<close>

definition arrived :: "pylib \<Rightarrow> delivery \<Rightarrow> string \<Rightarrow> bool" where
  "arrived lib d k = (case decoded lib d of None \<Rightarrow> False | Some (k', v) \<Rightarrow> k' = k)"

definition stored :: "pylib \<Rightarrow> delivery \<Rightarrow> world \<Rightarrow> world" where
  "stored lib d w =
     (case decoded lib d of
        None \<Rightarrow> w
      | Some (k, v) \<Rightarrow> upsert (d_queue d) k v (clock_insert (d_env d)) w)"

definition finalized :: "pylib \<Rightarrow> delivery \<Rightarrow> world \<Rightarrow> string \<Rightarrow> bool" where
  "finalized lib d w k =
     (arrived lib d k \<and> csv_io (d_env d) = Written \<and>
      (case buffer (stored lib d w) k of
         None \<Rightarrow> False
       | Some e \<Rightarrow> y_true e \<noteq> None \<and> y_pred e \<noteq> None))"

definition at_sweep :: "pylib \<Rightarrow> delivery \<Rightarrow> world \<Rightarrow> world option" where
  "at_sweep lib d w =
     (case decoded lib d of
        None \<Rightarrow> None
      | Some (k, v) \<Rightarrow>
          (case try_finalize (csv_io (d_env d)) k (stored lib d w) of
             (Some err, w3) \<Rightarrow> None
           | (None, w3) \<Rightarrow> Some w3))"

definition evicted :: "pylib \<Rightarrow> int \<Rightarrow> delivery \<Rightarrow> world \<Rightarrow> string \<Rightarrow> bool" where
  "evicted lib ttl d w k =
     (case at_sweep lib d w of
        None \<Rightarrow> False
      | Some w3 \<Rightarrow> buffer w3 k \<noteq> None \<and> to_delete ttl (clock_sweep (d_env d)) w3 k)"

text \<open>
  The invariant as the specification words it: after a list of deliveries, an id is
  expected to have an entry when one of its sides has arrived since it was last
  finalized or evicted. Within one delivery the arrival comes first, then the
  finalization, then the eviction. The argument \<open>L\<close> tells which ids are expected at the
  start.
\<close>

fun spec_expected :: "pylib \<Rightarrow> int \<Rightarrow> delivery list \<Rightarrow> world \<Rightarrow> (string \<Rightarrow> bool) \<Rightarrow> string \<Rightarrow> bool" where
  "spec_expected lib ttl [] w L = L"
| "spec_expected lib ttl (d # ds) w L =
     spec_expected lib ttl ds (deliver lib ttl d w)
       (\<lambda>k. (arrived lib d k \<or> L k) \<and> \<not> finalized lib d w k \<and> \<not> evicted lib ttl d w k)"

section \<open>Basic facts\<close>

lemma acknowledge_sel [simp]:
  "buffer (acknowledge ev t w) = buffer w"
  "buffer_ts (acknowledge ev t w) = buffer_ts w"
  "metric_log (acknowledge ev t w) = metric_log w"
  "channel (acknowledge ev t w) = channel w @ ack_calls ev t"
  by (cases "ack_call ev"; simp add: acknowledge_def basic_ack_def basic_nack_def ack_calls_def)+

lemma basic_nack_sel [simp]:
  "buffer (basic_nack t r w) = buffer w"
  "buffer_ts (basic_nack t r w) = buffer_ts w"
  "metric_log (basic_nack t r w) = metric_log w"
  "channel (basic_nack t r w) = channel w @ [Basic_nack t r]"
  by (simp_all add: basic_nack_def)

lemma cleanup_sel [simp]:
  "buffer (cleanup_old_records ttl now w) k = (if to_delete ttl now w k then None else buffer w k)"
  "buffer_ts (cleanup_old_records ttl now w) k = (if to_delete ttl now w k then None else buffer_ts w k)"
  "metric_log (cleanup_old_records ttl now w) = metric_log w"
  "channel (cleanup_old_records ttl now w) = channel w"
  by (simp_all add: cleanup_old_records_def)

lemma upsert_sel [simp]:
  "buffer (upsert q k v now w) =
     (buffer w)(k \<mapsto> set_side q v (case buffer w k of None \<Rightarrow> \<lparr>y_true = None, y_pred = None\<rparr> | Some e \<Rightarrow> e))"
  "buffer_ts (upsert q k v now w) = (if buffer w k = None then (buffer_ts w)(k \<mapsto> now) else buffer_ts w)"
  "metric_log (upsert q k v now w) = metric_log w"
  "channel (upsert q k v now w) = channel w"
  by (simp_all add: upsert_def split: option.splits)

lemma on_y_true_body_upsert:
  "on_y_true_body ttl ev tag k v w =
     (case try_finalize (csv_io ev) k (upsert Y_true k v (clock_insert ev) w) of
        (Some err, w3) \<Rightarrow> (Some err, w3)
      | (None, w3) \<Rightarrow> basic_ack (ack_call ev) tag (cleanup_old_records ttl (clock_sweep ev) w3))"
  by (cases "buffer w k") (simp_all add: on_y_true_body_def upsert_def set_side_def Let_def)

lemma on_y_true_decoded:
  "decode_message lib body = Inr (k, v) \<Longrightarrow>
   on_y_true lib ttl ev tag body w =
     finish ttl ev tag (try_finalize (csv_io ev) k (upsert Y_true k v (clock_insert ev) w))"
  by (simp add: on_y_true_def on_y_true_body_upsert finish_def acknowledge_def
           split: prod.splits option.splits)

lemma on_y_pred_body_upsert:
  "on_y_pred_body ttl ev tag k v w =
     (case try_finalize (csv_io ev) k (upsert Y_pred k v (clock_insert ev) w) of
        (Some err, w3) \<Rightarrow> (Some err, w3)
      | (None, w3) \<Rightarrow> basic_ack (ack_call ev) tag (cleanup_old_records ttl (clock_sweep ev) w3))"
  by (cases "buffer w k") (simp_all add: on_y_pred_body_def upsert_def set_side_def Let_def)

lemma on_y_pred_decoded:
  "decode_message lib body = Inr (k, v) \<Longrightarrow>
   on_y_pred lib ttl ev tag body w =
     finish ttl ev tag (try_finalize (csv_io ev) k (upsert Y_pred k v (clock_insert ev) w))"
  by (simp add: on_y_pred_def on_y_pred_body_upsert finish_def acknowledge_def
           split: prod.splits option.splits)

lemma deliver_decoded:
  "decode_message lib (d_body d) = Inr (k, v) \<Longrightarrow>
   deliver lib ttl d w =
     finish ttl (d_env d) (d_tag d)
       (try_finalize (csv_io (d_env d)) k (upsert (d_queue d) k v (clock_insert (d_env d)) w))"
  by (cases "d_queue d") (simp_all add: deliver_def on_y_true_decoded on_y_pred_decoded)

lemma deliver_undecoded:
  "decode_message lib (d_body d) = Inl err \<Longrightarrow>
   deliver lib ttl d w = basic_nack (d_tag d) True w"
  by (cases "d_queue d") (simp_all add: deliver_def on_y_true_def on_y_pred_def)

lemma try_finalize_absent:
  "buffer w k = None \<Longrightarrow> try_finalize io k w = (None, w)"
  by (simp add: try_finalize_def)

lemma try_finalize_one_side:
  "buffer w k = Some e \<Longrightarrow> y_true e = None \<or> y_pred e = None \<Longrightarrow> try_finalize io k w = (None, w)"
  by (auto simp add: try_finalize_def split: option.splits)

lemma try_finalize_both:
  "buffer w k = Some e \<Longrightarrow> y_true e = Some a \<Longrightarrow> y_pred e = Some b \<Longrightarrow>
   try_finalize io k w =
     (case io of
        Written \<Rightarrow> (None, w\<lparr>metric_log := metric_log w @ [(k, a, b, \<bar>a - b\<bar>)],
                            buffer := (buffer w)(k := None),
                            buffer_ts := (buffer_ts w)(k := None)\<rparr>)
      | Failed_before_write \<Rightarrow> (Some OSError, w)
      | Failed_after_write \<Rightarrow> (Some OSError, w\<lparr>metric_log := metric_log w @ [(k, a, b, \<bar>a - b\<bar>)]\<rparr>))"
  by (simp add: try_finalize_def append_metric_row_def split: io_outcome.splits)

lemma decode_message_failures:
  "decode_message lib None = Inl JSONDecodeError"
  "map_of kvs ''id'' = None \<Longrightarrow> decode_message lib (Some (JObj kvs)) = Inl KeyError"
  "map_of kvs ''body'' = None \<Longrightarrow> decode_message lib (Some (JObj kvs)) = Inl KeyError"
  "map_of kvs ''id'' = Some i \<Longrightarrow> map_of kvs ''body'' = Some b \<Longrightarrow> py_float lib b = Inl e \<Longrightarrow>
     decode_message lib (Some (JObj kvs)) = Inl e"
  by (simp_all add: decode_message_def split: option.splits)

lemma decoded_Some: "decoded lib d = Some (k, v) \<longleftrightarrow> decode_message lib (d_body d) = Inr (k, v)"
  by (simp add: decoded_def split: sum.splits)

lemma try_finalize_other_key:
  "k \<noteq> k' \<Longrightarrow> try_finalize io k' w = (r, w') \<Longrightarrow>
   buffer w' k = buffer w k \<and> buffer_ts w' k = buffer_ts w k \<and> rows_for k w' = rows_for k w"
  by (auto simp add: try_finalize_def append_metric_row_def rows_for_def Let_def
           split: option.splits io_outcome.splits)

lemma try_finalize_channel:
  "try_finalize io k w = (r, w') \<Longrightarrow> channel w' = channel w"
  by (auto simp add: try_finalize_def append_metric_row_def Let_def
           split: option.splits io_outcome.splits)

lemma finish_rows [simp]: "rows_for k (finish ttl ev tag (r, w)) = rows_for k w"
  by (cases r) (simp_all add: finish_def rows_for_def)

lemma finish_log [simp]: "metric_log (finish ttl ev tag (r, w)) = metric_log w"
  by (cases r) (simp_all add: finish_def)

lemma finish_missing: "missing q k w \<Longrightarrow> missing q k (finish ttl ev tag (r, w))"
  by (cases r) (simp_all add: finish_def missing_def split: option.splits)

lemma deliver_keeps_missing:
  assumes m: "missing q k w"
    and nd: "\<not> (d_queue d = q \<and> (\<exists>v. decoded lib d = Some (k, v)))"
  shows "missing q k (deliver lib ttl d w) \<and> rows_for k (deliver lib ttl d w) = rows_for k w"
proof (cases "decode_message lib (d_body d)")
  case (Inl err)
  with m show ?thesis
    by (simp add: deliver_undecoded missing_def rows_for_def)
next
  case (Inr kv)
  obtain k' v where kv: "kv = (k', v)" by (cases kv)
  let ?w2 = "upsert (d_queue d) k' v (clock_insert (d_env d)) w"
  obtain r w3 where tf: "try_finalize (csv_io (d_env d)) k' ?w2 = (r, w3)"
    by (cases "try_finalize (csv_io (d_env d)) k' ?w2")
  have del: "deliver lib ttl d w = finish ttl (d_env d) (d_tag d) (r, w3)"
    using Inr kv tf by (simp add: deliver_decoded)
  show ?thesis
  proof (cases "k' = k")
    case False
    then have "buffer w3 k = buffer w k" "rows_for k w3 = rows_for k w"
      using try_finalize_other_key [OF _ tf, of k] by (simp_all add: rows_for_def)
    with m have "missing q k w3" "rows_for k w3 = rows_for k w"
      by (simp_all add: missing_def)
    then show ?thesis
      by (simp add: del finish_missing)
  next
    case True
    with nd Inr kv have q: "d_queue d \<noteq> q"
      by (auto simp add: decoded_Some)
    have m2: "missing q k ?w2"
      using m q True
      by (cases q; cases "d_queue d")
         (auto simp add: missing_def get_side_def set_side_def split: option.splits)
    then have "try_finalize (csv_io (d_env d)) k ?w2 = (None, ?w2)"
      by (cases q)
         (auto simp add: missing_def get_side_def True
               intro: try_finalize_one_side split: option.splits)
    with tf True have "w3 = ?w2" by simp
    with m2 show ?thesis
      by (simp add: del finish_missing rows_for_def)
  qed
qed

lemma consume_keeps_missing:
  "missing q k w \<Longrightarrow>
   \<forall>d \<in> set ds. \<not> (d_queue d = q \<and> (\<exists>v. decoded lib d = Some (k, v))) \<Longrightarrow>
   missing q k (consume lib ttl ds w) \<and> rows_for k (consume lib ttl ds w) = rows_for k w"
proof (induction ds arbitrary: w)
  case Nil
  then show ?case by simp
next
  case (Cons d ds)
  from Cons.prems have step:
    "missing q k (deliver lib ttl d w)" "rows_for k (deliver lib ttl d w) = rows_for k w"
    using deliver_keeps_missing [of q k w d lib ttl] by simp_all
  from Cons.IH [OF step(1)] Cons.prems(2) step(2) show ?case by simp
qed

lemma decode_message_example [simp]:
  "decode_message lib (message (JStr k) (JFloat v)) = Inr (k, v)"
  by (simp add: decode_message_def message_def)

lemma delivery_at_sel [simp]:
  "d_queue (delivery_at q t tag k v) = q"
  "d_env (delivery_at q t tag k v) = at_time t"
  "d_tag (delivery_at q t tag k v) = tag"
  "d_body (delivery_at q t tag k v) = message (JStr k) (JFloat v)"
  by (simp_all add: delivery_at_def)

lemma decoded_delivery_at [simp]: "decoded lib (delivery_at q t tag k v) = Some (k, v)"
  by (simp add: decoded_def delivery_at_def)

lemmas handler_defs =
  on_y_true_def on_y_pred_def on_y_true_body_def on_y_pred_body_def deliver_def
  try_finalize_def append_metric_row_def cleanup_old_records_def to_delete_def
  basic_ack_def basic_nack_def Let_def

lemma finish_keeps_young:
  assumes "buffer_ts w k = Some ts" "clock_sweep ev - ts \<le> real_of_int ttl"
  shows "buffer (finish ttl ev tag (r, w)) k = buffer w k"
    and "buffer_ts (finish ttl ev tag (r, w)) k = Some ts"
  using assms by (cases r; simp add: finish_def to_delete_def)+

lemma finish_absent:
  "buffer w k = None \<Longrightarrow> buffer (finish ttl ev tag (r, w)) k = None"
  "buffer_ts w k = None \<Longrightarrow> buffer_ts (finish ttl ev tag (r, w)) k = None"
  by (cases r; simp add: finish_def)+

lemma deliver_other_key:
  assumes nk: "\<forall>v. decoded lib d \<noteq> Some (k, v)"
    and ts: "buffer_ts w k = Some ts"
    and young: "clock_sweep (d_env d) - ts \<le> real_of_int ttl"
  shows "buffer (deliver lib ttl d w) k = buffer w k \<and>
         buffer_ts (deliver lib ttl d w) k = Some ts \<and>
         rows_for k (deliver lib ttl d w) = rows_for k w"
proof (cases "decode_message lib (d_body d)")
  case (Inl err)
  with ts show ?thesis
    by (simp add: deliver_undecoded rows_for_def)
next
  case (Inr kv)
  obtain k' v where kv: "kv = (k', v)" by (cases kv)
  with nk Inr have neq: "k \<noteq> k'"
    by (auto simp add: decoded_Some)
  let ?w2 = "upsert (d_queue d) k' v (clock_insert (d_env d)) w"
  obtain r w3 where tf: "try_finalize (csv_io (d_env d)) k' ?w2 = (r, w3)"
    by (cases "try_finalize (csv_io (d_env d)) k' ?w2")
  have del: "deliver lib ttl d w = finish ttl (d_env d) (d_tag d) (r, w3)"
    using Inr kv tf by (simp add: deliver_decoded)
  from try_finalize_other_key [OF neq tf] neq ts
  have w3: "buffer w3 k = buffer w k" "buffer_ts w3 k = Some ts" "rows_for k w3 = rows_for k w"
    by (simp_all add: rows_for_def)
  from finish_keeps_young [OF w3(2) young] w3 show ?thesis
    by (simp add: del)
qed

lemma consume_other_keys:
  "\<forall>d \<in> set ds. (\<forall>v. decoded lib d \<noteq> Some (k, v)) \<and> clock_sweep (d_env d) - ts \<le> real_of_int ttl \<Longrightarrow>
   buffer_ts w k = Some ts \<Longrightarrow>
   buffer (consume lib ttl ds w) k = buffer w k \<and>
   buffer_ts (consume lib ttl ds w) k = Some ts \<and>
   rows_for k (consume lib ttl ds w) = rows_for k w"
proof (induction ds arbitrary: w)
  case Nil
  then show ?case by simp
next
  case (Cons d ds)
  from Cons.prems have step:
    "buffer (deliver lib ttl d w) k = buffer w k"
    "buffer_ts (deliver lib ttl d w) k = Some ts"
    "rows_for k (deliver lib ttl d w) = rows_for k w"
    using deliver_other_key [of lib d k w ts ttl] by simp_all
  from Cons.IH [OF _ step(2)] Cons.prems(1) step show ?case by simp
qed

lemma deliver_first_side:
  assumes fresh: "buffer w k = None"
    and dec: "decoded lib d = Some (k, a)"
    and young: "clock_sweep (d_env d) - clock_insert (d_env d) \<le> real_of_int ttl"
  shows "buffer (deliver lib ttl d w) k = Some (set_side (d_queue d) a \<lparr>y_true = None, y_pred = None\<rparr>)"
    and "buffer_ts (deliver lib ttl d w) k = Some (clock_insert (d_env d))"
    and "metric_log (deliver lib ttl d w) = metric_log w"
proof -
  let ?w2 = "upsert (d_queue d) k a (clock_insert (d_env d)) w"
  have e: "buffer ?w2 k = Some (set_side (d_queue d) a \<lparr>y_true = None, y_pred = None\<rparr>)"
    using fresh by simp
  have "y_true (set_side (d_queue d) a \<lparr>y_true = None, y_pred = None\<rparr>) = None \<or>
        y_pred (set_side (d_queue d) a \<lparr>y_true = None, y_pred = None\<rparr>) = None"
    by (cases "d_queue d") (simp_all add: set_side_def)
  from try_finalize_one_side [OF e this]
  have del: "deliver lib ttl d w = finish ttl (d_env d) (d_tag d) (None, ?w2)"
    using dec by (simp add: deliver_decoded decoded_Some)
  have ts: "buffer_ts ?w2 k = Some (clock_insert (d_env d))"
    using fresh by simp
  from finish_keeps_young [OF ts young] e
  show "buffer (deliver lib ttl d w) k = Some (set_side (d_queue d) a \<lparr>y_true = None, y_pred = None\<rparr>)"
    and "buffer_ts (deliver lib ttl d w) k = Some (clock_insert (d_env d))"
    by (simp_all add: del)
  show "metric_log (deliver lib ttl d w) = metric_log w"
    by (simp add: del)
qed

lemma deliver_second_side:
  assumes entry: "buffer w k = Some e"
    and dec: "decoded lib d = Some (k, v)"
    and both: "y_true (set_side (d_queue d) v e) = Some tv" "y_pred (set_side (d_queue d) v e) = Some pv"
    and io: "csv_io (d_env d) = Written"
  shows "metric_log (deliver lib ttl d w) = metric_log w @ [(k, tv, pv, \<bar>tv - pv\<bar>)]"
    and "buffer (deliver lib ttl d w) k = None"
    and "buffer_ts (deliver lib ttl d w) k = None"
    and "channel (deliver lib ttl d w) = channel w @ ack_calls (d_env d) (d_tag d)"
proof -
  let ?w2 = "upsert (d_queue d) k v (clock_insert (d_env d)) w"
  have e: "buffer ?w2 k = Some (set_side (d_queue d) v e)"
    using entry by simp
  from try_finalize_both [OF e both, of Written]
  have del: "deliver lib ttl d w = finish ttl (d_env d) (d_tag d)
      (None, ?w2\<lparr>metric_log := metric_log ?w2 @ [(k, tv, pv, \<bar>tv - pv\<bar>)],
                  buffer := (buffer ?w2)(k := None),
                  buffer_ts := (buffer_ts ?w2)(k := None)\<rparr>)"
    using dec io by (simp add: deliver_decoded decoded_Some)
  show "metric_log (deliver lib ttl d w) = metric_log w @ [(k, tv, pv, \<bar>tv - pv\<bar>)]"
    by (simp add: del)
  show "buffer (deliver lib ttl d w) k = None"
    by (simp add: del finish_absent)
  show "buffer_ts (deliver lib ttl d w) k = None"
    by (simp add: del finish_absent)
  show "channel (deliver lib ttl d w) = channel w @ ack_calls (d_env d) (d_tag d)"
    by (simp add: del finish_def)
qed


lemma init_world_sel [simp]:
  "buffer init_world = Map.empty"
  "buffer_ts init_world = Map.empty"
  "metric_log init_world = []"
  "channel init_world = []"
  "rows_for k init_world = []"
  by (simp_all add: init_world_def rows_for_def)

lemma deliver_fresh_no_row:
  assumes fresh: "buffer w k = None" and dec: "decoded lib d = Some (k, v)"
  shows "metric_log (deliver lib ttl d w) = metric_log w"
proof -
  let ?w2 = "upsert (d_queue d) k v (clock_insert (d_env d)) w"
  have e: "buffer ?w2 k = Some (set_side (d_queue d) v \<lparr>y_true = None, y_pred = None\<rparr>)"
    using fresh by simp
  have "y_true (set_side (d_queue d) v \<lparr>y_true = None, y_pred = None\<rparr>) = None \<or>
        y_pred (set_side (d_queue d) v \<lparr>y_true = None, y_pred = None\<rparr>) = None"
    by (cases "d_queue d") (simp_all add: set_side_def)
  from try_finalize_one_side [OF e this]
  have "deliver lib ttl d w = finish ttl (d_env d) (d_tag d) (None, ?w2)"
    using dec by (simp add: deliver_decoded decoded_Some)
  then show ?thesis by simp
qed

lemma world_eqI:
  fixes w w' :: world
  assumes "\<And>k. buffer w k = buffer w' k" "\<And>k. buffer_ts w k = buffer_ts w' k"
    "metric_log w = metric_log w'" "channel w = channel w'"
  shows "w = w'"
proof -
  have "buffer w = buffer w'" "buffer_ts w = buffer_ts w'"
    using assms(1,2) by (simp_all add: fun_eq_iff)
  with assms(3,4) show ?thesis by simp
qed

lemma two_sides_commute:
  assumes fresh: "buffer w k = None"
    and ages: "clock_sweep e1 - clock_insert e1 \<le> real_of_int ttl \<or>
               real_of_int ttl < clock_sweep e2 - clock_insert e2"
  shows "finish ttl e2 tag2 (try_finalize (csv_io e2) k (upsert Y_pred k b (clock_insert e2)
           (acknowledge e1 tag1 (cleanup_old_records ttl (clock_sweep e1)
              (upsert Y_true k a (clock_insert e1) w)))))
       = finish ttl e2 tag2 (try_finalize (csv_io e2) k (upsert Y_true k a (clock_insert e2)
           (acknowledge e1 tag1 (cleanup_old_records ttl (clock_sweep e1)
              (upsert Y_pred k b (clock_insert e1) w)))))"
    (is "?L = ?R")
proof (cases "clock_sweep e1 - clock_insert e1 \<le> real_of_int ttl")
  case True
  let ?wt = "acknowledge e1 tag1 (cleanup_old_records ttl (clock_sweep e1)
              (upsert Y_true k a (clock_insert e1) w))"
  let ?wp = "acknowledge e1 tag1 (cleanup_old_records ttl (clock_sweep e1)
              (upsert Y_pred k b (clock_insert e1) w))"
  have bt: "buffer ?wt k = Some \<lparr>y_true = Some a, y_pred = None\<rparr>"
    and bp: "buffer ?wp k = Some \<lparr>y_true = None, y_pred = Some b\<rparr>"
    using fresh True by (simp_all add: to_delete_def set_side_def)
  have same: "upsert Y_pred k b (clock_insert e2) ?wt = upsert Y_true k a (clock_insert e2) ?wp"
    using True by (intro world_eqI) (simp_all add: bt bp fresh set_side_def to_delete_def)
  then show ?thesis by simp
next
  case False
  with ages have old2: "real_of_int ttl < clock_sweep e2 - clock_insert e2" by simp
  let ?wt = "acknowledge e1 tag1 (cleanup_old_records ttl (clock_sweep e1)
              (upsert Y_true k a (clock_insert e1) w))"
  let ?wp = "acknowledge e1 tag1 (cleanup_old_records ttl (clock_sweep e1)
              (upsert Y_pred k b (clock_insert e1) w))"
  have bt: "buffer ?wt k = None" and bp: "buffer ?wp k = None"
    using fresh False by (simp_all add: to_delete_def)
  have same1: "?wt = ?wp"
    using False by (intro world_eqI) (simp_all add: fresh to_delete_def)
  have tft: "try_finalize (csv_io e2) k (upsert Y_pred k b (clock_insert e2) ?wt)
        = (None, upsert Y_pred k b (clock_insert e2) ?wt)"
    by (rule try_finalize_one_side [where e = "\<lparr>y_true = None, y_pred = Some b\<rparr>"])
       (use False in \<open>simp_all add: fresh to_delete_def set_side_def\<close>)
  have tfp: "try_finalize (csv_io e2) k (upsert Y_true k a (clock_insert e2) ?wp)
        = (None, upsert Y_true k a (clock_insert e2) ?wp)"
    by (rule try_finalize_one_side [where e = "\<lparr>y_true = Some a, y_pred = None\<rparr>"])
       (use False in \<open>simp_all add: fresh to_delete_def set_side_def\<close>)
  show ?thesis
    unfolding tft tfp
    using False old2
    by (intro world_eqI) (simp_all add: finish_def fresh to_delete_def)
qed


lemma handlers_fresh:
  assumes "buffer w k = None" "decode_message lib body = Inr (k, v)"
  shows "on_y_true lib ttl ev tag body w =
           acknowledge ev tag (cleanup_old_records ttl (clock_sweep ev) (upsert Y_true k v (clock_insert ev) w))"
    and "on_y_pred lib ttl ev tag body w =
           acknowledge ev tag (cleanup_old_records ttl (clock_sweep ev) (upsert Y_pred k v (clock_insert ev) w))"
proof -
  have "try_finalize (csv_io ev) k (upsert Y_true k v (clock_insert ev) w)
          = (None, upsert Y_true k v (clock_insert ev) w)"
    by (rule try_finalize_one_side [where e = "\<lparr>y_true = Some v, y_pred = None\<rparr>"])
       (simp_all add: assms(1) set_side_def)
  then show "on_y_true lib ttl ev tag body w =
           acknowledge ev tag (cleanup_old_records ttl (clock_sweep ev) (upsert Y_true k v (clock_insert ev) w))"
    using assms(2) by (simp add: on_y_true_decoded finish_def)
  have "try_finalize (csv_io ev) k (upsert Y_pred k v (clock_insert ev) w)
          = (None, upsert Y_pred k v (clock_insert ev) w)"
    by (rule try_finalize_one_side [where e = "\<lparr>y_true = None, y_pred = Some v\<rparr>"])
       (simp_all add: assms(1) set_side_def)
  then show "on_y_pred lib ttl ev tag body w =
           acknowledge ev tag (cleanup_old_records ttl (clock_sweep ev) (upsert Y_pred k v (clock_insert ev) w))"
    using assms(2) by (simp add: on_y_pred_decoded finish_def)
qed

lemma deliver_again:
  assumes entry: "buffer w k = Some e"
    and other: "get_side (other_queue (d_queue d)) e = None"
    and dec: "decoded lib d = Some (k, v)"
  shows "deliver lib ttl d w =
     acknowledge (d_env d) (d_tag d) (cleanup_old_records ttl (clock_sweep (d_env d))
        (w\<lparr>buffer := (buffer w)(k \<mapsto> set_side (d_queue d) v e)\<rparr>))"
proof -
  let ?w2 = "upsert (d_queue d) k v (clock_insert (d_env d)) w"
  have w2: "?w2 = w\<lparr>buffer := (buffer w)(k \<mapsto> set_side (d_queue d) v e)\<rparr>"
    using entry by (simp add: upsert_def)
  have e: "buffer ?w2 k = Some (set_side (d_queue d) v e)"
    using entry by simp
  have "y_true (set_side (d_queue d) v e) = None \<or> y_pred (set_side (d_queue d) v e) = None"
    using other by (cases "d_queue d") (simp_all add: set_side_def get_side_def other_queue_def)
  from try_finalize_one_side [OF e this] dec show ?thesis
    by (simp add: deliver_decoded decoded_Some finish_def w2)
qed

lemma handlers_as_deliver:
  "on_y_true lib ttl ev tag body w
     = deliver lib ttl \<lparr>d_queue = Y_true, d_env = ev, d_tag = tag, d_body = body\<rparr> w"
  "on_y_pred lib ttl ev tag body w
     = deliver lib ttl \<lparr>d_queue = Y_pred, d_env = ev, d_tag = tag, d_body = body\<rparr> w"
  by (simp_all add: deliver_def)

lemma deliver_keeps_absent:
  assumes "buffer w k = None" "\<forall>v. decoded lib d \<noteq> Some (k, v)"
  shows "buffer (deliver lib ttl d w) k = None"
proof (cases "decode_message lib (d_body d)")
  case (Inl err)
  with assms(1) show ?thesis by (simp add: deliver_undecoded)
next
  case (Inr kv)
  obtain k' v where kv: "kv = (k', v)" by (cases kv)
  with assms(2) Inr have neq: "k \<noteq> k'" by (auto simp add: decoded_Some)
  let ?w2 = "upsert (d_queue d) k' v (clock_insert (d_env d)) w"
  obtain r w3 where tf: "try_finalize (csv_io (d_env d)) k' ?w2 = (r, w3)"
    by (cases "try_finalize (csv_io (d_env d)) k' ?w2")
  from try_finalize_other_key [OF neq tf] neq assms(1) have "buffer w3 k = None" by simp
  then show ?thesis
    using Inr kv tf by (simp add: deliver_decoded finish_absent)
qed

lemma int_str_5: "int_str 5 = ''5''"
  by (simp add: int_str_def nat_str.simps digit_char_def)

lemma distinct_keys_no_row:
  assumes "decode_message lib bt = Inr (k1, a)" "decode_message lib bp = Inr (k2, b)"
    and "k1 \<noteq> k2" "buffer w k1 = None" "buffer w k2 = None"
  shows "metric_log (on_y_pred lib ttl e2 tag2 bp (on_y_true lib ttl e1 tag1 bt w)) = metric_log w"
proof -
  let ?d1 = "\<lparr>d_queue = Y_true, d_env = e1, d_tag = tag1, d_body = bt\<rparr>"
  let ?d2 = "\<lparr>d_queue = Y_pred, d_env = e2, d_tag = tag2, d_body = bp\<rparr>"
  have d1: "decoded lib ?d1 = Some (k1, a)" and d2: "decoded lib ?d2 = Some (k2, b)"
    using assms(1,2) by (simp_all add: decoded_def)
  have "\<forall>v. decoded lib ?d1 \<noteq> Some (k2, v)"
    using d1 assms(3) by simp
  from deliver_keeps_absent [OF assms(5) this]
  have absent: "buffer (deliver lib ttl ?d1 w) k2 = None" .
  from deliver_fresh_no_row [OF absent d2, of ttl] deliver_fresh_no_row [OF assms(4) d1, of ttl]
  show ?thesis
    by (simp add: handlers_as_deliver)
qed

lemma same_key_one_row:
  assumes "decode_message lib bt = Inr (k, a)" "decode_message lib bp = Inr (k, b)"
    and "buffer w k = None" "clock_sweep e1 - clock_insert e1 \<le> real_of_int ttl"
    and "csv_io e2 = Written"
  shows "metric_log (on_y_pred lib ttl e2 tag2 bp (on_y_true lib ttl e1 tag1 bt w))
           = metric_log w @ [(k, a, b, \<bar>a - b\<bar>)]"
proof -
  let ?d1 = "\<lparr>d_queue = Y_true, d_env = e1, d_tag = tag1, d_body = bt\<rparr>"
  let ?d2 = "\<lparr>d_queue = Y_pred, d_env = e2, d_tag = tag2, d_body = bp\<rparr>"
  have d1: "decoded lib ?d1 = Some (k, a)" and d2: "decoded lib ?d2 = Some (k, b)"
    using assms(1,2) by (simp_all add: decoded_def)
  have first: "buffer (deliver lib ttl ?d1 w) k = Some \<lparr>y_true = Some a, y_pred = None\<rparr>"
    "metric_log (deliver lib ttl ?d1 w) = metric_log w"
    using deliver_first_side [OF assms(3) d1, of ttl] assms(4)
    by (simp_all add: set_side_def)
  from deliver_second_side(1) [OF first(1) d2, of a b ttl] assms(5) first(2)
  show ?thesis
    by (simp add: handlers_as_deliver set_side_def)
qed

lemma try_finalize_buffer:
  "try_finalize io k' w = (r, w3) \<Longrightarrow>
   (buffer w3 k \<noteq> None) =
     (buffer w k \<noteq> None \<and>
      \<not> (k = k' \<and> io = Written \<and>
          (case buffer w k of None \<Rightarrow> False | Some e \<Rightarrow> y_true e \<noteq> None \<and> y_pred e \<noteq> None)))"
  by (cases io)
     (auto simp add: try_finalize_def append_metric_row_def Let_def
           split: option.splits if_splits)

lemma deliver_entry_step:
  "(buffer (deliver lib ttl d w) k \<noteq> None) =
     ((arrived lib d k \<or> buffer w k \<noteq> None) \<and>
      \<not> finalized lib d w k \<and> \<not> evicted lib ttl d w k)"
proof (cases "decode_message lib (d_body d)")
  case (Inl err)
  then have "decoded lib d = None" by (simp add: decoded_def)
  with Inl show ?thesis
    by (simp add: deliver_undecoded arrived_def finalized_def evicted_def at_sweep_def)
next
  case (Inr kv)
  obtain k' v where kv: "kv = (k', v)" by (cases kv)
  with Inr have dec: "decoded lib d = Some (k', v)" by (simp add: decoded_def)
  let ?w2 = "upsert (d_queue d) k' v (clock_insert (d_env d)) w"
  have st: "stored lib d w = ?w2" by (simp add: stored_def dec)
  obtain r w3 where tf: "try_finalize (csv_io (d_env d)) k' ?w2 = (r, w3)"
    by (cases "try_finalize (csv_io (d_env d)) k' ?w2")
  have del: "deliver lib ttl d w = finish ttl (d_env d) (d_tag d) (r, w3)"
    using Inr kv tf by (simp add: deliver_decoded)
  have w2: "(buffer ?w2 k \<noteq> None) = (arrived lib d k \<or> buffer w k \<noteq> None)"
    by (auto simp add: arrived_def dec)
  have w3: "(buffer w3 k \<noteq> None) = (buffer ?w2 k \<noteq> None \<and> \<not> finalized lib d w k)"
    unfolding try_finalize_buffer [OF tf, of k]
    by (auto simp add: finalized_def st arrived_def dec)
  show ?thesis
  proof (cases r)
    case None
    then have "at_sweep lib d w = Some w3"
      using tf by (simp add: at_sweep_def dec st)
    then have ev: "evicted lib ttl d w k
        = (buffer w3 k \<noteq> None \<and> to_delete ttl (clock_sweep (d_env d)) w3 k)"
      by (simp add: evicted_def)
    have "(buffer (deliver lib ttl d w) k \<noteq> None)
        = (buffer w3 k \<noteq> None \<and> \<not> to_delete ttl (clock_sweep (d_env d)) w3 k)"
      using None by (simp add: del finish_def)
    with ev w3 w2 show ?thesis by blast
  next
    case (Some err)
    then have "at_sweep lib d w = None"
      using tf by (simp add: at_sweep_def dec st)
    then have ev: "\<not> evicted lib ttl d w k"
      by (simp add: evicted_def)
    have "(buffer (deliver lib ttl d w) k \<noteq> None) = (buffer w3 k \<noteq> None)"
      using Some by (simp add: del finish_def)
    with ev w3 w2 show ?thesis by blast
  qed
qed

lemma never_finalized_and_evicted:
  "\<not> (finalized lib d w k \<and> evicted lib ttl d w k)"
proof
  assume both: "finalized lib d w k \<and> evicted lib ttl d w k"
  then obtain v where dec: "decoded lib d = Some (k, v)"
    by (auto simp add: finalized_def arrived_def split: option.splits)
  let ?w2 = "upsert (d_queue d) k v (clock_insert (d_env d)) w"
  have st: "stored lib d w = ?w2" by (simp add: stored_def dec)
  obtain r w3 where tf: "try_finalize (csv_io (d_env d)) k ?w2 = (r, w3)"
    by (cases "try_finalize (csv_io (d_env d)) k ?w2")
  from both have "buffer w3 k = None"
    using try_finalize_buffer [OF tf, of k]
    by (auto simp add: finalized_def st split: option.splits)
  moreover from both tf have "buffer w3 k \<noteq> None"
    by (auto simp add: evicted_def at_sweep_def dec st split: option.splits)
  ultimately show False by simp
qed

lemma finalized_emits_row:
  assumes "finalized lib d w k"
  shows "\<exists>a b. metric_log (deliver lib ttl d w) = metric_log w @ [(k, a, b, \<bar>a - b\<bar>)]"
proof -
  from assms obtain v where dec: "decoded lib d = Some (k, v)"
    by (auto simp add: finalized_def arrived_def split: option.splits)
  let ?w2 = "upsert (d_queue d) k v (clock_insert (d_env d)) w"
  have st: "stored lib d w = ?w2" by (simp add: stored_def dec)
  from assms obtain e a b where e: "buffer ?w2 k = Some e" "y_true e = Some a" "y_pred e = Some b"
    and io: "csv_io (d_env d) = Written"
    by (auto simp add: finalized_def st split: option.splits)
  from try_finalize_both [OF e, of Written] io dec
  have "metric_log (deliver lib ttl d w) = metric_log w @ [(k, a, b, \<bar>a - b\<bar>)]"
    by (simp add: deliver_decoded decoded_Some)
  then show ?thesis by blast
qed

lemma consume_expected:
  "(\<And>k. (buffer w k \<noteq> None) = L k) \<Longrightarrow>
   (buffer (consume lib ttl ds w) k \<noteq> None) = spec_expected lib ttl ds w L k"
proof (induction ds arbitrary: w L)
  case Nil
  then show ?case by simp
next
  case (Cons d ds)
  have "(buffer (deliver lib ttl d w) k \<noteq> None)
      = ((arrived lib d k \<or> L k) \<and> \<not> finalized lib d w k \<and> \<not> evicted lib ttl d w k)" for k
    using deliver_entry_step [of lib ttl d w k] Cons.prems [of k] by simp
  from Cons.IH [of "deliver lib ttl d w", OF this] show ?case by simp
qed


lemma deliver_well_formed:
  assumes ts: "\<And>k. (buffer w k = None) = (buffer_ts w k = None)"
    and side: "\<And>k e. buffer w k = Some e \<Longrightarrow> y_true e \<noteq> None \<or> y_pred e \<noteq> None"
  shows "(buffer (deliver lib ttl d w) k = None) = (buffer_ts (deliver lib ttl d w) k = None)"
    and "buffer (deliver lib ttl d w) k = Some e \<Longrightarrow> y_true e \<noteq> None \<or> y_pred e \<noteq> None"
proof -
  have "((buffer (deliver lib ttl d w) k = None) = (buffer_ts (deliver lib ttl d w) k = None)) \<and>
        (\<forall>e. buffer (deliver lib ttl d w) k = Some e \<longrightarrow> y_true e \<noteq> None \<or> y_pred e \<noteq> None)"
  proof (cases "decode_message lib (d_body d)")
    case (Inl err)
    then show ?thesis
      using ts [of k] side [of k] by (simp add: deliver_undecoded)
  next
    case (Inr kv)
    obtain k' v where kv: "kv = (k', v)" by (cases kv)
    let ?w2 = "upsert (d_queue d) k' v (clock_insert (d_env d)) w"
    have w2: "(buffer ?w2 k = None) = (buffer_ts ?w2 k = None)"
      "\<forall>e. buffer ?w2 k = Some e \<longrightarrow> y_true e \<noteq> None \<or> y_pred e \<noteq> None"
      using ts [of k] ts [of k'] side [of k]
      by (cases "d_queue d"; auto simp add: set_side_def split: option.splits)+
    obtain r w3 where tf: "try_finalize (csv_io (d_env d)) k' ?w2 = (r, w3)"
      by (cases "try_finalize (csv_io (d_env d)) k' ?w2")
    have w3: "(buffer w3 k = None) = (buffer_ts w3 k = None)"
      "\<forall>e. buffer w3 k = Some e \<longrightarrow> y_true e \<noteq> None \<or> y_pred e \<noteq> None"
      using tf w2
      by (cases "csv_io (d_env d)";
          auto simp add: try_finalize_def append_metric_row_def Let_def
               split: option.splits if_splits)+
    have del: "deliver lib ttl d w = finish ttl (d_env d) (d_tag d) (r, w3)"
      using Inr kv tf by (simp add: deliver_decoded)
    show ?thesis
      using w3 by (cases r) (auto simp add: del finish_def)
  qed
  then show "(buffer (deliver lib ttl d w) k = None) = (buffer_ts (deliver lib ttl d w) k = None)"
    and "buffer (deliver lib ttl d w) k = Some e \<Longrightarrow> y_true e \<noteq> None \<or> y_pred e \<noteq> None"
    by blast+
qed

lemma consume_well_formed:
  "(\<And>k. (buffer w k = None) = (buffer_ts w k = None)) \<Longrightarrow>
   (\<And>k e. buffer w k = Some e \<Longrightarrow> y_true e \<noteq> None \<or> y_pred e \<noteq> None) \<Longrightarrow>
   ((buffer (consume lib ttl ds w) k = None) = (buffer_ts (consume lib ttl ds w) k = None)) \<and>
   (\<forall>e. buffer (consume lib ttl ds w) k = Some e \<longrightarrow> y_true e \<noteq> None \<or> y_pred e \<noteq> None)"
proof (induction ds arbitrary: w)
  case Nil
  then show ?case by auto
next
  case (Cons d ds)
  have "(buffer (deliver lib ttl d w) k = None) = (buffer_ts (deliver lib ttl d w) k = None)" for k
    by (rule deliver_well_formed(1) [OF Cons.prems])
  moreover have "y_true e \<noteq> None \<or> y_pred e \<noteq> None"
    if "buffer (deliver lib ttl d w) k = Some e" for k e
    by (rule deliver_well_formed(2) [OF Cons.prems that])
  ultimately show ?case
    using Cons.IH [of "deliver lib ttl d w"] by simp
qed

lemma deliver_after_finalize:
  assumes dec: "decode_message lib (d_body d) = Inr (k, v)"
    and tf: "try_finalize (csv_io (d_env d)) k
               (upsert (d_queue d) k v (clock_insert (d_env d)) w) = (r, w3)"
  shows "r = None \<Longrightarrow> ack_call (d_env d) = Returns \<Longrightarrow>
           deliver lib ttl d w =
             (cleanup_old_records ttl (clock_sweep (d_env d)) w3)
               \<lparr>channel := channel w @ [Basic_ack (d_tag d)]\<rparr>"
    and "r = None \<Longrightarrow> ack_call (d_env d) = Raises \<Longrightarrow>
           deliver lib ttl d w =
             (cleanup_old_records ttl (clock_sweep (d_env d)) w3)
               \<lparr>channel := channel w @ [Basic_ack (d_tag d), Basic_nack (d_tag d) True]\<rparr>"
    and "r = Some err \<Longrightarrow>
           deliver lib ttl d w = w3\<lparr>channel := channel w @ [Basic_nack (d_tag d) True]\<rparr>"
proof -
  have ch: "channel w3 = channel w"
    using try_finalize_channel [OF tf] by simp
  have del: "deliver lib ttl d w = finish ttl (d_env d) (d_tag d) (r, w3)"
    using dec tf by (simp add: deliver_decoded)
  show "r = None \<Longrightarrow> ack_call (d_env d) = Returns \<Longrightarrow>
           deliver lib ttl d w =
             (cleanup_old_records ttl (clock_sweep (d_env d)) w3)
               \<lparr>channel := channel w @ [Basic_ack (d_tag d)]\<rparr>"
    by (simp add: del finish_def acknowledge_def basic_ack_def cleanup_old_records_def ch)
  show "r = None \<Longrightarrow> ack_call (d_env d) = Raises \<Longrightarrow>
           deliver lib ttl d w =
             (cleanup_old_records ttl (clock_sweep (d_env d)) w3)
               \<lparr>channel := channel w @ [Basic_ack (d_tag d), Basic_nack (d_tag d) True]\<rparr>"
    by (simp add: del finish_def acknowledge_def basic_ack_def basic_nack_def
          cleanup_old_records_def ch)
  show "r = Some err \<Longrightarrow>
           deliver lib ttl d w = w3\<lparr>channel := channel w @ [Basic_nack (d_tag d) True]\<rparr>"
    by (simp add: del finish_def basic_nack_def ch)
qed

lemma deliver_present:
  assumes entry: "buffer w k = Some e" and dec: "decoded lib d = Some (k, v)"
  shows "deliver lib ttl d w =
     finish ttl (d_env d) (d_tag d)
       (try_finalize (csv_io (d_env d)) k
          (w\<lparr>buffer := (buffer w)(k \<mapsto> set_side (d_queue d) v e)\<rparr>))"
proof -
  have "upsert (d_queue d) k v (clock_insert (d_env d)) w
      = w\<lparr>buffer := (buffer w)(k \<mapsto> set_side (d_queue d) v e)\<rparr>"
    using entry by (simp add: upsert_def)
  with dec show ?thesis
    by (simp add: deliver_decoded decoded_Some)
qed

lemma set_side_frame:
  "get_side q (set_side q v e) = Some v"
  "get_side (other_queue q) (set_side q v e) = get_side (other_queue q) e"
  by (cases q; simp add: get_side_def set_side_def other_queue_def)+

lemma deliver_both_set:
  assumes entry: "buffer w k = Some e" and ts: "buffer_ts w k = Some ts"
    and dec: "decoded lib d = Some (k, v)"
    and other: "get_side (other_queue (d_queue d)) e = Some u"
    and tv: "tv = (if d_queue d = Y_true then v else u)"
    and pv: "pv = (if d_queue d = Y_true then u else v)"
  shows "csv_io (d_env d) = Written \<Longrightarrow>
           metric_log (deliver lib ttl d w) = metric_log w @ [(k, tv, pv, \<bar>tv - pv\<bar>)] \<and>
           buffer (deliver lib ttl d w) k = None \<and> buffer_ts (deliver lib ttl d w) k = None"
    and "csv_io (d_env d) = Failed_before_write \<Longrightarrow>
           metric_log (deliver lib ttl d w) = metric_log w \<and>
           buffer (deliver lib ttl d w) k = Some (set_side (d_queue d) v e) \<and>
           buffer_ts (deliver lib ttl d w) k = Some ts"
    and "csv_io (d_env d) = Failed_after_write \<Longrightarrow>
           metric_log (deliver lib ttl d w) = metric_log w @ [(k, tv, pv, \<bar>tv - pv\<bar>)] \<and>
           buffer (deliver lib ttl d w) k = Some (set_side (d_queue d) v e) \<and>
           buffer_ts (deliver lib ttl d w) k = Some ts"
proof -
  let ?w2 = "w\<lparr>buffer := (buffer w)(k \<mapsto> set_side (d_queue d) v e)\<rparr>"
  have e: "buffer ?w2 k = Some (set_side (d_queue d) v e)" by simp
  have both: "y_true (set_side (d_queue d) v e) = Some tv"
             "y_pred (set_side (d_queue d) v e) = Some pv"
    using other tv pv
    by (cases "d_queue d"; simp add: get_side_def set_side_def other_queue_def)+
  note tf = try_finalize_both [OF e both]
  note del = deliver_present [OF entry dec, of ttl]
  show "csv_io (d_env d) = Written \<Longrightarrow>
           metric_log (deliver lib ttl d w) = metric_log w @ [(k, tv, pv, \<bar>tv - pv\<bar>)] \<and>
           buffer (deliver lib ttl d w) k = None \<and> buffer_ts (deliver lib ttl d w) k = None"
    by (simp add: del tf finish_def)
  show "csv_io (d_env d) = Failed_before_write \<Longrightarrow>
           metric_log (deliver lib ttl d w) = metric_log w \<and>
           buffer (deliver lib ttl d w) k = Some (set_side (d_queue d) v e) \<and>
           buffer_ts (deliver lib ttl d w) k = Some ts"
    using ts by (simp add: del tf finish_def)
  show "csv_io (d_env d) = Failed_after_write \<Longrightarrow>
           metric_log (deliver lib ttl d w) = metric_log w @ [(k, tv, pv, \<bar>tv - pv\<bar>)] \<and>
           buffer (deliver lib ttl d w) k = Some (set_side (d_queue d) v e) \<and>
           buffer_ts (deliver lib ttl d w) k = Some ts"
    using ts by (simp add: del tf finish_def)
qed

lemma deliver_present_entry:
  assumes entry: "buffer w k = Some e" and ts: "buffer_ts w k = Some ts"
    and dec: "decoded lib d = Some (k, v)"
  shows "buffer (deliver lib ttl d w) k = None \<or>
         buffer (deliver lib ttl d w) k = Some (set_side (d_queue d) v e) \<and>
         buffer_ts (deliver lib ttl d w) k = Some ts"
    and "length (metric_log (deliver lib ttl d w)) \<le> length (metric_log w) + 1"
proof -
  have "(buffer (deliver lib ttl d w) k = None \<or>
         buffer (deliver lib ttl d w) k = Some (set_side (d_queue d) v e) \<and>
         buffer_ts (deliver lib ttl d w) k = Some ts) \<and>
        length (metric_log (deliver lib ttl d w)) \<le> length (metric_log w) + 1"
  proof (cases "get_side (other_queue (d_queue d)) e")
    case None
    note again = deliver_again [OF entry None dec, of ttl]
    show ?thesis
      using ts by (simp add: again)
  next
    case (Some u)
    note both = deliver_both_set [OF entry ts dec Some refl refl, of ttl]
    show ?thesis
      using both by (cases "csv_io (d_env d)") simp_all
  qed
  then show "buffer (deliver lib ttl d w) k = None \<or>
         buffer (deliver lib ttl d w) k = Some (set_side (d_queue d) v e) \<and>
         buffer_ts (deliver lib ttl d w) k = Some ts"
    and "length (metric_log (deliver lib ttl d w)) \<le> length (metric_log w) + 1"
    by blast+
qed

lemma deliver_present_dom:
  assumes entry: "buffer w k = Some e" and dec: "decoded lib d = Some (k, v)"
  shows "dom (buffer (deliver lib ttl d w)) \<subseteq> dom (buffer w)"
proof
  fix k' assume "k' \<in> dom (buffer (deliver lib ttl d w))"
  then have "buffer (deliver lib ttl d w) k' \<noteq> None" by auto
  then have "arrived lib d k' \<or> buffer w k' \<noteq> None"
    using deliver_entry_step [of lib ttl d w k'] by simp
  with entry dec show "k' \<in> dom (buffer w)"
    by (auto simp add: arrived_def)
qed

section \<open>The claims\<close>

subsection \<open>C6: a message that fails to decode\<close>

text \<open>
  Claim C6. When the payload of a message fails to decode, either handler calls
  \<^verbatim>\<open>basic_nack\<close> with \<^verbatim>\<open>requeue=True\<close> and changes nothing else: \<^verbatim>\<open>buffer\<close>,
  \<^verbatim>\<open>buffer_ts\<close> and the CSV file are as before. A payload that is not JSON, an object
  without the field id, an object without the field body, and a body that \<^verbatim>\<open>float\<close>
  rejects all fail to decode.
\<close>

theorem decode_failure_requeues_without_mutation:
  "(decode_message lib body = Inl err \<longrightarrow>
      on_y_true lib ttl ev tag body w = w\<lparr>channel := channel w @ [Basic_nack tag True]\<rparr> \<and>
      on_y_pred lib ttl ev tag body w = w\<lparr>channel := channel w @ [Basic_nack tag True]\<rparr>) \<and>
   decode_message lib None = Inl JSONDecodeError \<and>
   (map_of kvs1 ''id'' = None \<longrightarrow> decode_message lib (Some (JObj kvs1)) = Inl KeyError) \<and>
   (map_of kvs2 ''body'' = None \<longrightarrow> decode_message lib (Some (JObj kvs2)) = Inl KeyError) \<and>
   (map_of kvs3 ''id'' = Some i \<and> map_of kvs3 ''body'' = Some b \<and> py_float lib b = Inl e \<longrightarrow>
      decode_message lib (Some (JObj kvs3)) = Inl e)"
  by (simp add: decode_message_failures on_y_true_def on_y_pred_def basic_nack_def)

theorem decode_failure_requeues_without_mutation_witness:
  "decode_message sample_lib (Some (JArr [])) = Inl TypeError \<and>
   on_y_true sample_lib 600 (at_time 3) 7 (Some (JArr [])) init_world
     = init_world\<lparr>channel := [Basic_nack 7 True]\<rparr> \<and>
   on_y_pred sample_lib 600 (at_time 3) 7 (Some (JArr [])) init_world
     = init_world\<lparr>channel := [Basic_nack 7 True]\<rparr> \<and>
   map_of [(''body'', JInt 1)] ''id'' = None \<and>
   decode_message sample_lib (Some (JObj [(''body'', JInt 1)])) = Inl KeyError \<and>
   map_of [(''id'', JInt 1)] ''body'' = None \<and>
   decode_message sample_lib (Some (JObj [(''id'', JInt 1)])) = Inl KeyError \<and>
   py_float sample_lib (JArr [JFloat 1, JFloat 2]) = Inl TypeError \<and>
   decode_message sample_lib (message (JInt 1) (JArr [JFloat 1, JFloat 2])) = Inl TypeError"
  using decode_failure_requeues_without_mutation
          [of sample_lib "Some (JArr [])" TypeError 600 "at_time 3" 7 init_world
              "[(''body'', JInt 1)]" "[(''id'', JInt 1)]"
              "[(''id'', JInt 1), (''body'', JArr [JFloat 1, JFloat 2])]" "JInt 1"
              "JArr [JFloat 1, JFloat 2]" TypeError]
  by (simp add: decode_message_def init_world_def message_def)

subsection \<open>C5: no row without both sides\<close>

text \<open>
  Claim C5. \<^verbatim>\<open>try_finalize\<close> returns without any effect when the id has no entry, or
  its entry lacks y_true, or lacks y_pred. Consequently, as long as one side of an id
  has not been delivered, no delivery adds a row for that id to the CSV file, whatever
  the clock says.
\<close>

theorem try_finalize_needs_both_sides:
  "((buffer w k = None \<or> (\<exists>e. buffer w k = Some e \<and> (y_true e = None \<or> y_pred e = None))) \<longrightarrow>
      try_finalize io k w = (None, w)) \<and>
   (missing q k w \<and> (\<forall>d \<in> set ds. \<not> (d_queue d = q \<and> (\<exists>v. decoded lib d = Some (k, v)))) \<longrightarrow>
      rows_for k (consume lib ttl ds w) = rows_for k w \<and> missing q k (consume lib ttl ds w))"
proof -
  have "try_finalize io k w = (None, w)"
    if "buffer w k = None \<or> (\<exists>e. buffer w k = Some e \<and> (y_true e = None \<or> y_pred e = None))"
    using that by (auto simp add: try_finalize_absent try_finalize_one_side)
  moreover have "rows_for k (consume lib ttl ds w) = rows_for k w \<and> missing q k (consume lib ttl ds w)"
    if "missing q k w" "\<forall>d \<in> set ds. \<not> (d_queue d = q \<and> (\<exists>v. decoded lib d = Some (k, v)))"
    using consume_keeps_missing [OF that] by simp
  ultimately show ?thesis by blast
qed

theorem try_finalize_needs_both_sides_witness:
  "buffer \<lparr>buffer = [''X'' \<mapsto> \<lparr>y_true = Some 10, y_pred = None\<rparr>], buffer_ts = [''X'' \<mapsto> 0],
           metric_log = [], channel = [Basic_ack 1]\<rparr> ''X''
     = Some \<lparr>y_true = Some 10, y_pred = None\<rparr> \<and>
   try_finalize Written ''X''
     \<lparr>buffer = [''X'' \<mapsto> \<lparr>y_true = Some 10, y_pred = None\<rparr>], buffer_ts = [''X'' \<mapsto> 0],
      metric_log = [], channel = [Basic_ack 1]\<rparr>
     = (None, \<lparr>buffer = [''X'' \<mapsto> \<lparr>y_true = Some 10, y_pred = None\<rparr>], buffer_ts = [''X'' \<mapsto> 0],
               metric_log = [], channel = [Basic_ack 1]\<rparr>) \<and>
   missing Y_pred ''X''
     \<lparr>buffer = [''X'' \<mapsto> \<lparr>y_true = Some 10, y_pred = None\<rparr>], buffer_ts = [''X'' \<mapsto> 0],
      metric_log = [], channel = [Basic_ack 1]\<rparr> \<and>
   rows_for ''X''
     (consume sample_lib 600
        [delivery_at Y_true 100 2 ''X'' 11, delivery_at Y_pred 200 3 ''Z'' 7,
         delivery_at Y_true 599 4 ''Z'' 8]
        \<lparr>buffer = [''X'' \<mapsto> \<lparr>y_true = Some 10, y_pred = None\<rparr>], buffer_ts = [''X'' \<mapsto> 0],
         metric_log = [], channel = [Basic_ack 1]\<rparr>) = []"
  using try_finalize_needs_both_sides
          [of "\<lparr>buffer = [''X'' \<mapsto> \<lparr>y_true = Some 10, y_pred = None\<rparr>], buffer_ts = [''X'' \<mapsto> 0],
                metric_log = [], channel = [Basic_ack 1]\<rparr>" "''X''" Written Y_pred
              "[delivery_at Y_true 100 2 ''X'' 11, delivery_at Y_pred 200 3 ''Z'' 7,
                delivery_at Y_true 599 4 ''Z'' 8]" sample_lib 600]
  by (simp add: missing_def get_side_def rows_for_def try_finalize_def)

subsection \<open>C8: the write to the CSV file fails\<close>

text \<open>
  Claim C8. When both sides of an id are set once the handler has stored its value, and
  \<^verbatim>\<open>append_metric_row\<close> raises, the entry stays in \<^verbatim>\<open>buffer\<close> with both values set,
  \<^verbatim>\<open>buffer_ts\<close> is unchanged (neither the deletion nor the sweep is reached), and the
  handler calls \<^verbatim>\<open>basic_nack\<close> with \<^verbatim>\<open>requeue=True\<close> and not \<^verbatim>\<open>basic_ack\<close>.
\<close>

theorem sink_failure_keeps_entry_and_requeues:
  "decode_message lib body = Inr (k, v) \<and> buffer w k = Some e \<and> csv_io ev \<noteq> Written \<longrightarrow>
     (y_pred e = Some b \<longrightarrow>
        buffer (on_y_true lib ttl ev tag body w) = (buffer w)(k \<mapsto> \<lparr>y_true = Some v, y_pred = Some b\<rparr>) \<and>
        buffer_ts (on_y_true lib ttl ev tag body w) = buffer_ts w \<and>
        channel (on_y_true lib ttl ev tag body w) = channel w @ [Basic_nack tag True]) \<and>
     (y_true e = Some a \<longrightarrow>
        buffer (on_y_pred lib ttl ev tag body w) = (buffer w)(k \<mapsto> \<lparr>y_true = Some a, y_pred = Some v\<rparr>) \<and>
        buffer_ts (on_y_pred lib ttl ev tag body w) = buffer_ts w \<and>
        channel (on_y_pred lib ttl ev tag body w) = channel w @ [Basic_nack tag True])"
  by (cases "csv_io ev")
     (auto simp add: on_y_true_decoded on_y_pred_decoded finish_def set_side_def
        try_finalize_both [where a = v and b = b] try_finalize_both [where a = a and b = v])

theorem sink_failure_keeps_entry_and_requeues_witness:
  "decode_message sample_lib (message (JStr ''X'') (JFloat 10)) = Inr (''X'', 10) \<and>
   buffer \<lparr>buffer = [''X'' \<mapsto> \<lparr>y_true = Some 3, y_pred = Some 7\<rparr>], buffer_ts = [''X'' \<mapsto> 0],
              metric_log = [], channel = []\<rparr> ''X'' = Some \<lparr>y_true = Some 3, y_pred = Some 7\<rparr> \<and>
   buffer (on_y_true sample_lib 600 \<lparr>clock_insert = 5, clock_sweep = 5, csv_io = Failed_before_write, ack_call = Returns\<rparr> 2 (message (JStr ''X'') (JFloat 10))
             \<lparr>buffer = [''X'' \<mapsto> \<lparr>y_true = Some 3, y_pred = Some 7\<rparr>], buffer_ts = [''X'' \<mapsto> 0],
              metric_log = [], channel = []\<rparr>)
     = [''X'' \<mapsto> \<lparr>y_true = Some 10, y_pred = Some 7\<rparr>] \<and>
   channel (on_y_true sample_lib 600 \<lparr>clock_insert = 5, clock_sweep = 5, csv_io = Failed_before_write, ack_call = Returns\<rparr> 2 (message (JStr ''X'') (JFloat 10))
             \<lparr>buffer = [''X'' \<mapsto> \<lparr>y_true = Some 3, y_pred = Some 7\<rparr>], buffer_ts = [''X'' \<mapsto> 0],
              metric_log = [], channel = []\<rparr>)
     = [Basic_nack 2 True] \<and>
   buffer (on_y_pred sample_lib 600 \<lparr>clock_insert = 5, clock_sweep = 5, csv_io = Failed_before_write, ack_call = Returns\<rparr> 2 (message (JStr ''X'') (JFloat 10))
             \<lparr>buffer = [''X'' \<mapsto> \<lparr>y_true = Some 3, y_pred = Some 7\<rparr>], buffer_ts = [''X'' \<mapsto> 0],
              metric_log = [], channel = []\<rparr>)
     = [''X'' \<mapsto> \<lparr>y_true = Some 3, y_pred = Some 10\<rparr>] \<and>
   buffer_ts (on_y_pred sample_lib 600 \<lparr>clock_insert = 5, clock_sweep = 5, csv_io = Failed_before_write, ack_call = Returns\<rparr> 2 (message (JStr ''X'') (JFloat 10))
             \<lparr>buffer = [''X'' \<mapsto> \<lparr>y_true = Some 3, y_pred = Some 7\<rparr>], buffer_ts = [''X'' \<mapsto> 0],
              metric_log = [], channel = []\<rparr>)
     = [''X'' \<mapsto> 0] \<and>
   channel (on_y_pred sample_lib 600 \<lparr>clock_insert = 5, clock_sweep = 5, csv_io = Failed_before_write, ack_call = Returns\<rparr> 2 (message (JStr ''X'') (JFloat 10))
             \<lparr>buffer = [''X'' \<mapsto> \<lparr>y_true = Some 3, y_pred = Some 7\<rparr>], buffer_ts = [''X'' \<mapsto> 0],
              metric_log = [], channel = []\<rparr>)
     = [Basic_nack 2 True]"
  using sink_failure_keeps_entry_and_requeues
          [of sample_lib "message (JStr ''X'') (JFloat 10)" "''X''" 10
              "\<lparr>buffer = [''X'' \<mapsto> \<lparr>y_true = Some 3, y_pred = Some 7\<rparr>], buffer_ts = [''X'' \<mapsto> 0],
              metric_log = [], channel = []\<rparr>"
              "\<lparr>y_true = Some 3, y_pred = Some 7\<rparr>"
              "\<lparr>clock_insert = 5, clock_sweep = 5, csv_io = Failed_before_write, ack_call = Returns\<rparr>" 7 600 2 3]
  by simp

subsection \<open>C1: both sides arrive\<close>

text \<open>
  Claim C1. Let an id have no entry. One side is delivered and stored; further
  deliveries follow, none of them bearing this id, each with a sweep at which the age of
  the entry does not exceed the TTL; then the other side is delivered and the write to
  the CSV file succeeds. Then that last delivery appends exactly one row, made of the
  id, the stored y_true, the stored y_pred and \<open>\<bar>y_true - y_pred\<bar>\<close>; it is the only
  row added for this id since the start; and the id is in neither dictionary afterwards.
  The order of the two sides does not matter. The call of \<^verbatim>\<open>try_finalize\<close> in
  that last delivery appends the row and deletes the entry from both dictionaries.
\<close>

theorem both_sides_within_ttl_emit_one_row:
  assumes "buffer w0 k = None"
    and "decoded lib d1 = Some (k, a)"
    and "clock_sweep (d_env d1) - clock_insert (d_env d1) \<le> real_of_int ttl"
    and "\<forall>d \<in> set ds. (\<forall>v. decoded lib d \<noteq> Some (k, v)) \<and>
                        clock_sweep (d_env d) - clock_insert (d_env d1) \<le> real_of_int ttl"
    and "decoded lib d2 = Some (k, b)"
    and "d_queue d2 = other_queue (d_queue d1)"
    and "csv_io (d_env d2) = Written"
    and "tv = (if d_queue d1 = Y_true then a else b)"
    and "pv = (if d_queue d1 = Y_true then b else a)"
    and "w2 = consume lib ttl ds (deliver lib ttl d1 w0)"
    and "w3 = deliver lib ttl d2 w2"
  shows "metric_log w3 = metric_log w2 @ [(k, tv, pv, \<bar>tv - pv\<bar>)] \<and>
         rows_for k w3 = rows_for k w0 @ [(k, tv, pv, \<bar>tv - pv\<bar>)] \<and>
         buffer w3 k = None \<and> buffer_ts w3 k = None \<and>
         channel w3 = channel w2 @ ack_calls (d_env d2) (d_tag d2) \<and>
         (let u = upsert (d_queue d2) k b (clock_insert (d_env d2)) w2 in
            try_finalize Written k u =
              (None, u\<lparr>metric_log := metric_log u @ [(k, tv, pv, \<bar>tv - pv\<bar>)],
                       buffer := (buffer u)(k := None),
                       buffer_ts := (buffer_ts u)(k := None)\<rparr>))"
proof -
  let ?w1 = "deliver lib ttl d1 w0"
  let ?e = "set_side (d_queue d1) a \<lparr>y_true = None, y_pred = None\<rparr>"
  note first = deliver_first_side [OF assms(1) assms(2) assms(3)]
  from consume_other_keys [OF assms(4) first(2)] first assms(10)
  have w2: "buffer w2 k = Some ?e" "rows_for k w2 = rows_for k w0"
    by (simp_all add: rows_for_def)
  have both: "y_true (set_side (d_queue d2) b ?e) = Some tv"
             "y_pred (set_side (d_queue d2) b ?e) = Some pv"
    using assms(6) assms(8) assms(9)
    by (cases "d_queue d1"; simp add: set_side_def other_queue_def)+
  note second = deliver_second_side [OF w2(1) assms(5) both assms(7), of ttl]
  have "rows_for k w3 = rows_for k w2 @ [(k, tv, pv, \<bar>tv - pv\<bar>)]"
    using second(1) assms(11) by (simp add: rows_for_def)
  moreover have "buffer (upsert (d_queue d2) k b (clock_insert (d_env d2)) w2) k
      = Some (set_side (d_queue d2) b ?e)"
    using w2(1) by simp
  from try_finalize_both [OF this both, of Written]
  have "let u = upsert (d_queue d2) k b (clock_insert (d_env d2)) w2 in
        try_finalize Written k u =
          (None, u\<lparr>metric_log := metric_log u @ [(k, tv, pv, \<bar>tv - pv\<bar>)],
                   buffer := (buffer u)(k := None),
                   buffer_ts := (buffer_ts u)(k := None)\<rparr>)"
    by (simp add: Let_def)
  ultimately show ?thesis
    using second w2(2) assms(11) by simp
qed

theorem both_sides_within_ttl_emit_one_row_witness:
  "metric_log
     (deliver sample_lib 600 (delivery_at Y_pred 5 2 ''17000.1'' 138.5)
        (consume sample_lib 600 []
           (deliver sample_lib 600 (delivery_at Y_true 0 1 ''17000.1'' 142) init_world)))
     = [(''17000.1'', 142, 138.5, 3.5)] \<and>
   buffer
     (deliver sample_lib 600 (delivery_at Y_pred 5 2 ''17000.1'' 138.5)
        (consume sample_lib 600 []
           (deliver sample_lib 600 (delivery_at Y_true 0 1 ''17000.1'' 142) init_world)))
     ''17000.1'' = None \<and>
   rows_for ''Y''
     (deliver sample_lib 600 (delivery_at Y_true 9 3 ''Y'' 4)
        (consume sample_lib 600 [delivery_at Y_true 7 2 ''Z'' 1]
           (deliver sample_lib 600 (delivery_at Y_pred 0 1 ''Y'' 5) init_world)))
     = [(''Y'', 4, 5, 1)]"
proof -
  have log: "metric_log (deliver sample_lib 600 (delivery_at Y_true 0 1 ''17000.1'' 142) init_world) = []"
    by (simp add: deliver_first_side [where a = 142] at_time_def)
  have "metric_log
          (deliver sample_lib 600 (delivery_at Y_pred 5 2 ''17000.1'' 138.5)
             (consume sample_lib 600 []
                (deliver sample_lib 600 (delivery_at Y_true 0 1 ''17000.1'' 142) init_world)))
          = [(''17000.1'', 142, 138.5, \<bar>142 - 138.5\<bar>)] \<and>
        buffer
          (deliver sample_lib 600 (delivery_at Y_pred 5 2 ''17000.1'' 138.5)
             (consume sample_lib 600 []
                (deliver sample_lib 600 (delivery_at Y_true 0 1 ''17000.1'' 142) init_world)))
          ''17000.1'' = None"
    using both_sides_within_ttl_emit_one_row
            [where ?w0.0 = init_world and k = "''17000.1''" and lib = sample_lib and ttl = 600
               and ?d1.0 = "delivery_at Y_true 0 1 ''17000.1'' 142" and a = 142 and ds = "[]"
               and ?d2.0 = "delivery_at Y_pred 5 2 ''17000.1'' 138.5" and b = "138.5"
               and tv = 142 and pv = "138.5"
               and ?w2.0 = "consume sample_lib 600 []
                   (deliver sample_lib 600 (delivery_at Y_true 0 1 ''17000.1'' 142) init_world)"
               and ?w3.0 = "deliver sample_lib 600 (delivery_at Y_pred 5 2 ''17000.1'' 138.5)
                   (consume sample_lib 600 []
                      (deliver sample_lib 600 (delivery_at Y_true 0 1 ''17000.1'' 142) init_world))"]
          log
    by (simp add: at_time_def other_queue_def)
  moreover have "rows_for ''Y''
          (deliver sample_lib 600 (delivery_at Y_true 9 3 ''Y'' 4)
             (consume sample_lib 600 [delivery_at Y_true 7 2 ''Z'' 1]
                (deliver sample_lib 600 (delivery_at Y_pred 0 1 ''Y'' 5) init_world)))
          = [(''Y'', 4, 5, \<bar>4 - 5\<bar>)]"
    using both_sides_within_ttl_emit_one_row
            [where ?w0.0 = init_world and k = "''Y''" and lib = sample_lib and ttl = 600
               and ?d1.0 = "delivery_at Y_pred 0 1 ''Y'' 5" and a = 5
               and ds = "[delivery_at Y_true 7 2 ''Z'' 1]"
               and ?d2.0 = "delivery_at Y_true 9 3 ''Y'' 4" and b = 4 and tv = 4 and pv = 5
               and ?w2.0 = "consume sample_lib 600 [delivery_at Y_true 7 2 ''Z'' 1]
                   (deliver sample_lib 600 (delivery_at Y_pred 0 1 ''Y'' 5) init_world)"
               and ?w3.0 = "deliver sample_lib 600 (delivery_at Y_true 9 3 ''Y'' 4)
                   (consume sample_lib 600 [delivery_at Y_true 7 2 ''Z'' 1]
                      (deliver sample_lib 600 (delivery_at Y_pred 0 1 ''Y'' 5) init_world))"]
    by (simp add: at_time_def other_queue_def)
  ultimately show ?thesis
    by simp
qed

subsection \<open>C2: the sweep\<close>

text \<open>
  Claim C2. \<^verbatim>\<open>cleanup_old_records\<close> at time \<open>now\<close> deletes an entry that has a
  timestamp \<open>ts\<close> exactly when \<open>now - ts\<close> exceeds the TTL, whatever its two fields hold;
  it keeps every other entry as it is, creates none and writes no row. Once an id has
  been deleted that way, the next delivery for it stores a new entry that holds the
  delivered side only, with the time of that delivery as its timestamp, and appends no
  row. In particular, with TTL 600, the entry of an id that holds y_true = 10 since time
  0 is gone after the sweep at time 601, and the CSV file is as before.
\<close>

theorem sweep_evicts_exactly_expired:
  "(buffer w k = Some e \<and> buffer_ts w k = Some ts \<longrightarrow>
      buffer (cleanup_old_records ttl now w) k
        = (if now - ts > real_of_int ttl then None else Some e) \<and>
      buffer_ts (cleanup_old_records ttl now w) k
        = (if now - ts > real_of_int ttl then None else Some ts)) \<and>
   (buffer w k = None \<longrightarrow> buffer (cleanup_old_records ttl now w) k = None) \<and>
   metric_log (cleanup_old_records ttl now w) = metric_log w \<and>
   (buffer w k = Some e \<and> buffer_ts w k = Some ts \<and> now - ts > real_of_int ttl \<and>
    decoded lib d = Some (k, v) \<longrightarrow>
      metric_log (deliver lib ttl d (cleanup_old_records ttl now w)) = metric_log w \<and>
      (clock_sweep (d_env d) - clock_insert (d_env d) \<le> real_of_int ttl \<longrightarrow>
         buffer (deliver lib ttl d (cleanup_old_records ttl now w)) k
           = Some (set_side (d_queue d) v \<lparr>y_true = None, y_pred = None\<rparr>) \<and>
         buffer_ts (deliver lib ttl d (cleanup_old_records ttl now w)) k
           = Some (clock_insert (d_env d))))"
proof -
  have "metric_log (deliver lib ttl d (cleanup_old_records ttl now w)) = metric_log w \<and>
      (clock_sweep (d_env d) - clock_insert (d_env d) \<le> real_of_int ttl \<longrightarrow>
         buffer (deliver lib ttl d (cleanup_old_records ttl now w)) k
           = Some (set_side (d_queue d) v \<lparr>y_true = None, y_pred = None\<rparr>) \<and>
         buffer_ts (deliver lib ttl d (cleanup_old_records ttl now w)) k
           = Some (clock_insert (d_env d)))"
    if "buffer_ts w k = Some ts" "now - ts > real_of_int ttl" "decoded lib d = Some (k, v)"
  proof -
    have gone: "buffer (cleanup_old_records ttl now w) k = None"
      using that by (simp add: to_delete_def)
    show ?thesis
      using deliver_fresh_no_row [OF gone that(3), of ttl]
            deliver_first_side [OF gone that(3), of ttl]
      by simp
  qed
  then show ?thesis
    by (simp add: to_delete_def)
qed

theorem sweep_evicts_exactly_expired_witness:
  "buffer (cleanup_old_records 600 601
            \<lparr>buffer = [''X'' \<mapsto> \<lparr>y_true = Some 10, y_pred = None\<rparr>], buffer_ts = [''X'' \<mapsto> 0],
             metric_log = [], channel = [Basic_ack 1]\<rparr>) ''X'' = None \<and>
   metric_log (cleanup_old_records 600 601
            \<lparr>buffer = [''X'' \<mapsto> \<lparr>y_true = Some 10, y_pred = None\<rparr>], buffer_ts = [''X'' \<mapsto> 0],
             metric_log = [], channel = [Basic_ack 1]\<rparr>) = [] \<and>
   metric_log (deliver sample_lib 600 (delivery_at Y_pred 602 2 ''X'' 9)
      (cleanup_old_records 600 601
            \<lparr>buffer = [''X'' \<mapsto> \<lparr>y_true = Some 10, y_pred = None\<rparr>], buffer_ts = [''X'' \<mapsto> 0],
             metric_log = [], channel = [Basic_ack 1]\<rparr>)) = [] \<and>
   buffer (deliver sample_lib 600 (delivery_at Y_pred 602 2 ''X'' 9)
      (cleanup_old_records 600 601
            \<lparr>buffer = [''X'' \<mapsto> \<lparr>y_true = Some 10, y_pred = None\<rparr>], buffer_ts = [''X'' \<mapsto> 0],
             metric_log = [], channel = [Basic_ack 1]\<rparr>)) ''X''
     = Some \<lparr>y_true = None, y_pred = Some 9\<rparr> \<and>
   buffer_ts (deliver sample_lib 600 (delivery_at Y_pred 602 2 ''X'' 9)
      (cleanup_old_records 600 601
            \<lparr>buffer = [''X'' \<mapsto> \<lparr>y_true = Some 10, y_pred = None\<rparr>], buffer_ts = [''X'' \<mapsto> 0],
             metric_log = [], channel = [Basic_ack 1]\<rparr>)) ''X'' = Some 602 \<and>
   buffer (cleanup_old_records 600 600
            \<lparr>buffer = [''X'' \<mapsto> \<lparr>y_true = Some 10, y_pred = None\<rparr>], buffer_ts = [''X'' \<mapsto> 0],
             metric_log = [], channel = [Basic_ack 1]\<rparr>) ''X''
     = Some \<lparr>y_true = Some 10, y_pred = None\<rparr> \<and>
   buffer (cleanup_old_records 600 601
            \<lparr>buffer = [''X'' \<mapsto> \<lparr>y_true = Some 10, y_pred = None\<rparr>], buffer_ts = [''X'' \<mapsto> 0],
             metric_log = [], channel = [Basic_ack 1]\<rparr>) ''Z'' = None"
  using sweep_evicts_exactly_expired
          [where w = "\<lparr>buffer = [''X'' \<mapsto> \<lparr>y_true = Some 10, y_pred = None\<rparr>],
                        buffer_ts = [''X'' \<mapsto> 0], metric_log = [], channel = [Basic_ack 1]\<rparr>"
             and k = "''X''" and e = "\<lparr>y_true = Some 10, y_pred = None\<rparr>" and ts = 0
             and ttl = 600 and now = 601 and lib = sample_lib
             and d = "delivery_at Y_pred 602 2 ''X'' 9" and v = 9]
        sweep_evicts_exactly_expired
          [where w = "\<lparr>buffer = [''X'' \<mapsto> \<lparr>y_true = Some 10, y_pred = None\<rparr>],
                        buffer_ts = [''X'' \<mapsto> 0], metric_log = [], channel = [Basic_ack 1]\<rparr>"
             and k = "''X''" and e = "\<lparr>y_true = Some 10, y_pred = None\<rparr>" and ts = 0
             and ttl = 600 and now = 600 and lib = sample_lib
             and d = "delivery_at Y_pred 602 2 ''X'' 9" and v = 9]
        sweep_evicts_exactly_expired
          [where w = "\<lparr>buffer = [''X'' \<mapsto> \<lparr>y_true = Some 10, y_pred = None\<rparr>],
                        buffer_ts = [''X'' \<mapsto> 0], metric_log = [], channel = [Basic_ack 1]\<rparr>"
             and k = "''Z''" and e = "\<lparr>y_true = Some 10, y_pred = None\<rparr>" and ts = 0
             and ttl = 600 and now = 601 and lib = sample_lib
             and d = "delivery_at Y_pred 602 2 ''X'' 9" and v = 9]
  by (simp add: at_time_def set_side_def)

subsection \<open>C3: the order of the two sides\<close>

text \<open>
  Claim C3. Let an id have no entry, and let a y_true message and a y_pred message
  decode to that id. Handling y_true first and y_pred second leaves the same state
  (both dictionaries, the CSV file with its rows, the channel) as handling y_pred first
  and y_true second, when the first delivery has the same clock readings, outcomes of the
  write and of the call of \<^verbatim>\<open>basic_ack\<close>, and delivery tag in both orders, and so has
  the second. The clock readings are such
  that the sweep of the first delivery keeps the entry just created, or the sweep of the
  second evicts the entry created there; one of the two always holds when each delivery
  reads the same time at both places.
\<close>

theorem order_of_sides_is_irrelevant:
  assumes "buffer w k = None"
    and "decode_message lib y_true_body = Inr (k, a)"
    and "decode_message lib y_pred_body = Inr (k, b)"
    and "clock_sweep e1 - clock_insert e1 \<le> real_of_int ttl \<or>
         real_of_int ttl < clock_sweep e2 - clock_insert e2"
  shows "on_y_pred lib ttl e2 tag2 y_pred_body (on_y_true lib ttl e1 tag1 y_true_body w)
       = on_y_true lib ttl e2 tag2 y_true_body (on_y_pred lib ttl e1 tag1 y_pred_body w)"
proof -
  have first_true: "on_y_true lib ttl e1 tag1 y_true_body w =
      acknowledge e1 tag1 (cleanup_old_records ttl (clock_sweep e1) (upsert Y_true k a (clock_insert e1) w))"
    by (rule handlers_fresh(1) [OF assms(1) assms(2)])
  have first_pred: "on_y_pred lib ttl e1 tag1 y_pred_body w =
      acknowledge e1 tag1 (cleanup_old_records ttl (clock_sweep e1) (upsert Y_pred k b (clock_insert e1) w))"
    by (rule handlers_fresh(2) [OF assms(1) assms(3)])
  have "on_y_pred lib ttl e2 tag2 y_pred_body (on_y_true lib ttl e1 tag1 y_true_body w)
      = finish ttl e2 tag2 (try_finalize (csv_io e2) k (upsert Y_pred k b (clock_insert e2)
           (acknowledge e1 tag1 (cleanup_old_records ttl (clock_sweep e1)
              (upsert Y_true k a (clock_insert e1) w)))))"
    by (simp only: first_true on_y_pred_decoded [OF assms(3)])
  also have "\<dots> = finish ttl e2 tag2 (try_finalize (csv_io e2) k (upsert Y_true k a (clock_insert e2)
           (acknowledge e1 tag1 (cleanup_old_records ttl (clock_sweep e1)
              (upsert Y_pred k b (clock_insert e1) w)))))"
    by (rule two_sides_commute [OF assms(1) assms(4)])
  also have "\<dots> = on_y_true lib ttl e2 tag2 y_true_body (on_y_pred lib ttl e1 tag1 y_pred_body w)"
    by (simp only: first_pred on_y_true_decoded [OF assms(2)])
  finally show ?thesis .
qed

theorem order_of_sides_is_irrelevant_witness:
  "on_y_pred sample_lib 600 (at_time 5) 2 (message (JStr ''17000.1'') (JFloat 138.5))
     (on_y_true sample_lib 600 (at_time 0) 1 (message (JStr ''17000.1'') (JFloat 142)) init_world)
   = on_y_true sample_lib 600 (at_time 5) 2 (message (JStr ''17000.1'') (JFloat 142))
       (on_y_pred sample_lib 600 (at_time 0) 1 (message (JStr ''17000.1'') (JFloat 138.5)) init_world) \<and>
   metric_log
     (on_y_true sample_lib 600 (at_time 5) 2 (message (JStr ''17000.1'') (JFloat 142))
       (on_y_pred sample_lib 600 (at_time 0) 1 (message (JStr ''17000.1'') (JFloat 138.5)) init_world))
   = [(''17000.1'', 142, 138.5, 3.5)]"
proof -
  have "metric_log
     (on_y_true sample_lib 600 (at_time 5) 2 (message (JStr ''17000.1'') (JFloat 142))
       (on_y_pred sample_lib 600 (at_time 0) 1 (message (JStr ''17000.1'') (JFloat 138.5)) init_world))
   = [(''17000.1'', 142, 138.5, 3.5)]"
    by (simp add: handler_defs at_time_def init_world_def)
  then show ?thesis
    using order_of_sides_is_irrelevant
            [where w = init_world and k = "''17000.1''" and lib = sample_lib
               and y_true_body = "message (JStr ''17000.1'') (JFloat 142)" and a = 142
               and y_pred_body = "message (JStr ''17000.1'') (JFloat 138.5)" and b = "138.5"
               and ?e1.0 = "at_time 0" and ?e2.0 = "at_time 5" and ttl = 600
               and ?tag1.0 = 1 and ?tag2.0 = 2]
    by (simp add: at_time_def)
qed

subsection \<open>C10: the key is the text of the id\<close>

text \<open>
  Claim C10. The key under which both handlers read and write the two dictionaries is
  \<^verbatim>\<open>str(msg["id"])\<close>, and a handler depends on the payload through the decoded key
  and value only. The JSON number 5 and the JSON string "5" have the same text, so a
  y_true message with the one and a y_pred message with the other meet in one entry and
  yield one row. Two messages whose ids have different texts never yield a row together;
  this is the case of 5 and 5.0, as Python prints the float 5.0 as "5.0".
\<close>

theorem join_key_is_text_of_id:
  "(subscript msg ''id'' = Inr i \<and> decode_message lib (Some msg) = Inr (k, v) \<longrightarrow>
      k = py_str lib i) \<and>
   (decode_message lib body1 = decode_message lib body2 \<longrightarrow>
      on_y_true lib ttl ev tag body1 w = on_y_true lib ttl ev tag body2 w \<and>
      on_y_pred lib ttl ev tag body1 w = on_y_pred lib ttl ev tag body2 w) \<and>
   py_str lib (JInt 5) = py_str lib (JStr ''5'') \<and>
   (buffer w ''5'' = None \<and> clock_sweep e1 - clock_insert e1 \<le> real_of_int ttl \<and>
    csv_io e2 = Written \<longrightarrow>
      metric_log (on_y_pred lib ttl e2 tag2 (message (JStr ''5'') (JFloat b))
                   (on_y_true lib ttl e1 tag1 (message (JInt 5) (JFloat a)) w))
        = metric_log w @ [(''5'', a, b, \<bar>a - b\<bar>)]) \<and>
   (decode_message lib bt = Inr (k1, a) \<and> decode_message lib bp = Inr (k2, b) \<and> k1 \<noteq> k2 \<and>
    buffer w k1 = None \<and> buffer w k2 = None \<longrightarrow>
      metric_log (on_y_pred lib ttl e2 tag2 bp (on_y_true lib ttl e1 tag1 bt w)) = metric_log w) \<and>
   (float_repr lib 5 = ''5.0'' \<and> buffer w ''5'' = None \<and> buffer w ''5.0'' = None \<longrightarrow>
      py_str lib (JInt 5) \<noteq> py_str lib (JFloat 5) \<and>
      metric_log (on_y_pred lib ttl e2 tag2 (message (JFloat 5) (JFloat b))
                   (on_y_true lib ttl e1 tag1 (message (JInt 5) (JFloat a)) w))
        = metric_log w)"
proof -
  have key: "k = py_str lib i"
    if "subscript msg ''id'' = Inr i" "decode_message lib (Some msg) = Inr (k, v)"
    using that by (auto simp add: decode_message_def Let_def split: sum.splits)
  have dep: "on_y_true lib ttl ev tag body1 w = on_y_true lib ttl ev tag body2 w \<and>
             on_y_pred lib ttl ev tag body1 w = on_y_pred lib ttl ev tag body2 w"
    if "decode_message lib body1 = decode_message lib body2"
    using that by (simp add: on_y_true_def on_y_pred_def)
  have dec_int: "decode_message lib (message (JInt 5) (JFloat a)) = Inr (''5'', a)"
    and dec_str: "decode_message lib (message (JStr ''5'') (JFloat b)) = Inr (''5'', b)"
    by (simp_all add: decode_message_def message_def int_str_5)
  have dec_float: "decode_message lib (message (JFloat 5) (JFloat b)) = Inr (''5.0'', b)"
    if "float_repr lib 5 = ''5.0''"
    using that by (simp add: decode_message_def message_def)
  have same: "metric_log (on_y_pred lib ttl e2 tag2 (message (JStr ''5'') (JFloat b))
                   (on_y_true lib ttl e1 tag1 (message (JInt 5) (JFloat a)) w))
        = metric_log w @ [(''5'', a, b, \<bar>a - b\<bar>)]"
    if "buffer w ''5'' = None" "clock_sweep e1 - clock_insert e1 \<le> real_of_int ttl"
       "csv_io e2 = Written"
    by (rule same_key_one_row [OF dec_int dec_str that])
  have diff: "metric_log (on_y_pred lib ttl e2 tag2 bp (on_y_true lib ttl e1 tag1 bt w)) = metric_log w"
    if "decode_message lib bt = Inr (k1, a)" "decode_message lib bp = Inr (k2, b)" "k1 \<noteq> k2"
       "buffer w k1 = None" "buffer w k2 = None"
    by (rule distinct_keys_no_row [OF that])
  have float: "py_str lib (JInt 5) \<noteq> py_str lib (JFloat 5) \<and>
      metric_log (on_y_pred lib ttl e2 tag2 (message (JFloat 5) (JFloat b))
                   (on_y_true lib ttl e1 tag1 (message (JInt 5) (JFloat a)) w))
        = metric_log w"
    if "float_repr lib 5 = ''5.0''" "buffer w ''5'' = None" "buffer w ''5.0'' = None"
    using distinct_keys_no_row [OF dec_int dec_float [OF that(1)] _ that(2) that(3)] that(1)
    by (simp add: int_str_5)
  have "py_str lib (JInt 5) = py_str lib (JStr ''5'')"
    by (simp add: int_str_5)
  with key dep same diff float show ?thesis
    by blast
qed

theorem join_key_is_text_of_id_witness:
  "decode_message sample_lib (message (JInt 5) (JFloat 4)) = Inr (''5'', 4) \<and>
   decode_message sample_lib (message (JStr ''5'') (JFloat 3)) = Inr (''5'', 3) \<and>
   decode_message sample_lib (message (JFloat 5) (JFloat 3)) = Inr (''5.0'', 3) \<and>
   metric_log (on_y_pred sample_lib 600 (at_time 1) 2 (message (JStr ''5'') (JFloat 3))
                (on_y_true sample_lib 600 (at_time 0) 1 (message (JInt 5) (JFloat 4)) init_world))
     = [(''5'', 4, 3, 1)] \<and>
   metric_log (on_y_pred sample_lib 600 (at_time 1) 2 (message (JFloat 5) (JFloat 3))
                (on_y_true sample_lib 600 (at_time 0) 1 (message (JInt 5) (JFloat 4)) init_world))
     = []"
proof -
  have dec: "decode_message sample_lib (message (JInt 5) (JFloat 4)) = Inr (''5'', 4)"
    "decode_message sample_lib (message (JStr ''5'') (JFloat 3)) = Inr (''5'', 3)"
    "decode_message sample_lib (message (JFloat 5) (JFloat 3)) = Inr (''5.0'', 3)"
    "float_repr sample_lib 5 = ''5.0''"
    by (simp_all add: decode_message_def message_def int_str_5 sample_lib_def)
  show ?thesis
    using join_key_is_text_of_id
            [where msg = "JObj [(''id'', JInt 5), (''body'', JFloat 4)]" and i = "JInt 5"
               and lib = sample_lib and k = "''5''" and v = 4
               and ?body1.0 = "message (JInt 5) (JFloat 4)"
               and ?body2.0 = "message (JStr ''5'') (JFloat 4)"
               and w = init_world and ?e1.0 = "at_time 0" and ?e2.0 = "at_time 1" and ttl = 600
               and ?tag1.0 = 1 and ?tag2.0 = 2 and a = 4 and b = 3
               and bt = "message (JInt 5) (JFloat 4)" and bp = "message (JFloat 5) (JFloat 3)"
               and ?k1.0 = "''5''" and ?k2.0 = "''5.0''", THEN conjunct2, THEN conjunct2]
          dec
    by (simp add: at_time_def)
qed

subsection \<open>C9: when an entry exists\<close>

text \<open>
  Claim C9. After any list of deliveries from the empty state, an id has an entry in
  \<^verbatim>\<open>buffer\<close> exactly when one of its sides has arrived since it was last finalized or
  evicted (\<open>spec_expected\<close>); the entry then has a timestamp and at least one value.
  In any state, one delivery leaves an entry for an id exactly when the id had one or
  has arrived, and the delivery has neither finalized nor evicted it; no delivery both
  finalizes and evicts an id; and a finalization appends a row for the id.
\<close>

theorem entry_exists_until_finalized_or_evicted:
  "(buffer (consume lib ttl ds init_world) k \<noteq> None)
     = spec_expected lib ttl ds init_world (\<lambda>k. False) k \<and>
   (buffer (consume lib ttl ds init_world) k = None)
     = (buffer_ts (consume lib ttl ds init_world) k = None) \<and>
   (\<forall>e. buffer (consume lib ttl ds init_world) k = Some e \<longrightarrow>
        y_true e \<noteq> None \<or> y_pred e \<noteq> None) \<and>
   (buffer (deliver lib ttl d w) k \<noteq> None)
     = ((arrived lib d k \<or> buffer w k \<noteq> None) \<and>
        \<not> finalized lib d w k \<and> \<not> evicted lib ttl d w k) \<and>
   \<not> (finalized lib d w k \<and> evicted lib ttl d w k) \<and>
   (finalized lib d w k \<longrightarrow>
      (\<exists>a b. metric_log (deliver lib ttl d w) = metric_log w @ [(k, a, b, \<bar>a - b\<bar>)]))"
proof -
  have "(buffer (consume lib ttl ds init_world) k \<noteq> None)
     = spec_expected lib ttl ds init_world (\<lambda>k. False) k"
    by (rule consume_expected) simp
  moreover have "((buffer (consume lib ttl ds init_world) k = None)
       = (buffer_ts (consume lib ttl ds init_world) k = None)) \<and>
     (\<forall>e. buffer (consume lib ttl ds init_world) k = Some e \<longrightarrow>
        y_true e \<noteq> None \<or> y_pred e \<noteq> None)"
    by (rule consume_well_formed) simp_all
  ultimately show ?thesis
    using deliver_entry_step [of lib ttl d w k] never_finalized_and_evicted [of lib d w k ttl]
      finalized_emits_row [of lib d w k ttl]
    by blast
qed

theorem entry_exists_until_finalized_or_evicted_witness:
  "buffer (consume sample_lib 600
       [delivery_at Y_pred 0 1 ''Y'' 5, delivery_at Y_true 2 2 ''Y'' 4,
        delivery_at Y_true 3 3 ''X'' 10, delivery_at Y_true 700 4 ''Z'' 1] init_world) ''X'' = None \<and>
   \<not> spec_expected sample_lib 600
       [delivery_at Y_pred 0 1 ''Y'' 5, delivery_at Y_true 2 2 ''Y'' 4,
        delivery_at Y_true 3 3 ''X'' 10, delivery_at Y_true 700 4 ''Z'' 1] init_world (\<lambda>k. False) ''X'' \<and>
   buffer (consume sample_lib 600
       [delivery_at Y_pred 0 1 ''Y'' 5, delivery_at Y_true 2 2 ''Y'' 4,
        delivery_at Y_true 3 3 ''X'' 10, delivery_at Y_true 700 4 ''Z'' 1] init_world) ''Z'' = Some \<lparr>y_true = Some 1, y_pred = None\<rparr> \<and>
   spec_expected sample_lib 600
       [delivery_at Y_pred 0 1 ''Y'' 5, delivery_at Y_true 2 2 ''Y'' 4,
        delivery_at Y_true 3 3 ''X'' 10, delivery_at Y_true 700 4 ''Z'' 1] init_world (\<lambda>k. False) ''Z'' \<and>
   evicted sample_lib 600 (delivery_at Y_true 700 4 ''Z'' 1)
     \<lparr>buffer = [''X'' \<mapsto> \<lparr>y_true = Some 10, y_pred = None\<rparr>], buffer_ts = [''X'' \<mapsto> 3],
        metric_log = [(''Y'', 4, 5, 1)], channel = [Basic_ack 1, Basic_ack 2, Basic_ack 3]\<rparr> ''X'' \<and>
   \<not> finalized sample_lib (delivery_at Y_true 700 4 ''Z'' 1)
     \<lparr>buffer = [''X'' \<mapsto> \<lparr>y_true = Some 10, y_pred = None\<rparr>], buffer_ts = [''X'' \<mapsto> 3],
        metric_log = [(''Y'', 4, 5, 1)], channel = [Basic_ack 1, Basic_ack 2, Basic_ack 3]\<rparr> ''X'' \<and>
   buffer (deliver sample_lib 600 (delivery_at Y_true 700 4 ''Z'' 1)
     \<lparr>buffer = [''X'' \<mapsto> \<lparr>y_true = Some 10, y_pred = None\<rparr>], buffer_ts = [''X'' \<mapsto> 3],
        metric_log = [(''Y'', 4, 5, 1)], channel = [Basic_ack 1, Basic_ack 2, Basic_ack 3]\<rparr>) ''X'' = None \<and>
   finalized sample_lib (delivery_at Y_true 2 2 ''Y'' 4)
     \<lparr>buffer = [''Y'' \<mapsto> \<lparr>y_true = None, y_pred = Some 5\<rparr>], buffer_ts = [''Y'' \<mapsto> 0],
        metric_log = [], channel = [Basic_ack 1]\<rparr> ''Y'' \<and>
   \<not> evicted sample_lib 600 (delivery_at Y_true 2 2 ''Y'' 4)
     \<lparr>buffer = [''Y'' \<mapsto> \<lparr>y_true = None, y_pred = Some 5\<rparr>], buffer_ts = [''Y'' \<mapsto> 0],
        metric_log = [], channel = [Basic_ack 1]\<rparr> ''Y'' \<and>
   buffer (deliver sample_lib 600 (delivery_at Y_true 2 2 ''Y'' 4)
     \<lparr>buffer = [''Y'' \<mapsto> \<lparr>y_true = None, y_pred = Some 5\<rparr>], buffer_ts = [''Y'' \<mapsto> 0],
        metric_log = [], channel = [Basic_ack 1]\<rparr>) ''Y'' = None \<and>
   metric_log (deliver sample_lib 600 (delivery_at Y_true 2 2 ''Y'' 4)
     \<lparr>buffer = [''Y'' \<mapsto> \<lparr>y_true = None, y_pred = Some 5\<rparr>], buffer_ts = [''Y'' \<mapsto> 0],
        metric_log = [], channel = [Basic_ack 1]\<rparr>) = [(''Y'', 4, 5, 1)]"
proof -
  have x: "buffer (consume sample_lib 600
       [delivery_at Y_pred 0 1 ''Y'' 5, delivery_at Y_true 2 2 ''Y'' 4,
        delivery_at Y_true 3 3 ''X'' 10, delivery_at Y_true 700 4 ''Z'' 1] init_world) ''X'' = None"
    and z: "buffer (consume sample_lib 600
       [delivery_at Y_pred 0 1 ''Y'' 5, delivery_at Y_true 2 2 ''Y'' 4,
        delivery_at Y_true 3 3 ''X'' 10, delivery_at Y_true 700 4 ''Z'' 1] init_world) ''Z'' = Some \<lparr>y_true = Some 1, y_pred = None\<rparr>"
    by (simp_all add: handler_defs at_time_def message_def decode_message_def init_world_def)
  have ev: "evicted sample_lib 600 (delivery_at Y_true 700 4 ''Z'' 1)
     \<lparr>buffer = [''X'' \<mapsto> \<lparr>y_true = Some 10, y_pred = None\<rparr>], buffer_ts = [''X'' \<mapsto> 3],
        metric_log = [(''Y'', 4, 5, 1)], channel = [Basic_ack 1, Basic_ack 2, Basic_ack 3]\<rparr> ''X''"
    by (simp add: evicted_def at_sweep_def stored_def upsert_def set_side_def try_finalize_def
          to_delete_def at_time_def)
  have fin: "finalized sample_lib (delivery_at Y_true 2 2 ''Y'' 4)
     \<lparr>buffer = [''Y'' \<mapsto> \<lparr>y_true = None, y_pred = Some 5\<rparr>], buffer_ts = [''Y'' \<mapsto> 0],
        metric_log = [], channel = [Basic_ack 1]\<rparr> ''Y''"
    by (simp add: finalized_def arrived_def stored_def upsert_def set_side_def at_time_def)
  have log: "metric_log (deliver sample_lib 600 (delivery_at Y_true 2 2 ''Y'' 4)
     \<lparr>buffer = [''Y'' \<mapsto> \<lparr>y_true = None, y_pred = Some 5\<rparr>], buffer_ts = [''Y'' \<mapsto> 0],
        metric_log = [], channel = [Basic_ack 1]\<rparr>) = [(''Y'', 4, 5, 1)]"
    by (simp add: handler_defs at_time_def message_def decode_message_def)
  note tx = entry_exists_until_finalized_or_evicted
            [where lib = sample_lib and ttl = 600 and k = "''X''"
               and ds = "[delivery_at Y_pred 0 1 ''Y'' 5, delivery_at Y_true 2 2 ''Y'' 4,
        delivery_at Y_true 3 3 ''X'' 10, delivery_at Y_true 700 4 ''Z'' 1]"
               and d = "delivery_at Y_true 700 4 ''Z'' 1"
               and w = "\<lparr>buffer = [''X'' \<mapsto> \<lparr>y_true = Some 10, y_pred = None\<rparr>], buffer_ts = [''X'' \<mapsto> 3],
        metric_log = [(''Y'', 4, 5, 1)], channel = [Basic_ack 1, Basic_ack 2, Basic_ack 3]\<rparr>"]
  note tz = entry_exists_until_finalized_or_evicted
            [where lib = sample_lib and ttl = 600 and k = "''Z''"
               and ds = "[delivery_at Y_pred 0 1 ''Y'' 5, delivery_at Y_true 2 2 ''Y'' 4,
        delivery_at Y_true 3 3 ''X'' 10, delivery_at Y_true 700 4 ''Z'' 1]"
               and d = "delivery_at Y_true 2 2 ''Y'' 4"
               and w = "\<lparr>buffer = [''Y'' \<mapsto> \<lparr>y_true = None, y_pred = Some 5\<rparr>], buffer_ts = [''Y'' \<mapsto> 0],
        metric_log = [], channel = [Basic_ack 1]\<rparr>"]
  note ty = entry_exists_until_finalized_or_evicted
            [where lib = sample_lib and ttl = 600 and k = "''Y''"
               and ds = "[delivery_at Y_pred 0 1 ''Y'' 5, delivery_at Y_true 2 2 ''Y'' 4,
        delivery_at Y_true 3 3 ''X'' 10, delivery_at Y_true 700 4 ''Z'' 1]"
               and d = "delivery_at Y_true 2 2 ''Y'' 4"
               and w = "\<lparr>buffer = [''Y'' \<mapsto> \<lparr>y_true = None, y_pred = Some 5\<rparr>], buffer_ts = [''Y'' \<mapsto> 0],
        metric_log = [], channel = [Basic_ack 1]\<rparr>"]
  from z have z': "buffer (consume sample_lib 600
       [delivery_at Y_pred 0 1 ''Y'' 5, delivery_at Y_true 2 2 ''Y'' 4,
        delivery_at Y_true 3 3 ''X'' 10, delivery_at Y_true 700 4 ''Z'' 1] init_world) ''Z'' \<noteq> None"
    by (simp only: option.distinct not_False_eq_True)
  from tx x have sx: "\<not> spec_expected sample_lib 600
       [delivery_at Y_pred 0 1 ''Y'' 5, delivery_at Y_true 2 2 ''Y'' 4,
        delivery_at Y_true 3 3 ''X'' 10, delivery_at Y_true 700 4 ''Z'' 1] init_world (\<lambda>k. False) ''X''"
    by blast
  from tz z' have sz: "spec_expected sample_lib 600
       [delivery_at Y_pred 0 1 ''Y'' 5, delivery_at Y_true 2 2 ''Y'' 4,
        delivery_at Y_true 3 3 ''X'' 10, delivery_at Y_true 700 4 ''Z'' 1] init_world (\<lambda>k. False) ''Z''"
    by blast
  from tx ev have nf: "\<not> finalized sample_lib (delivery_at Y_true 700 4 ''Z'' 1)
     \<lparr>buffer = [''X'' \<mapsto> \<lparr>y_true = Some 10, y_pred = None\<rparr>], buffer_ts = [''X'' \<mapsto> 3],
        metric_log = [(''Y'', 4, 5, 1)], channel = [Basic_ack 1, Basic_ack 2, Basic_ack 3]\<rparr> ''X''"
    and bx: "buffer (deliver sample_lib 600 (delivery_at Y_true 700 4 ''Z'' 1)
     \<lparr>buffer = [''X'' \<mapsto> \<lparr>y_true = Some 10, y_pred = None\<rparr>], buffer_ts = [''X'' \<mapsto> 3],
        metric_log = [(''Y'', 4, 5, 1)], channel = [Basic_ack 1, Basic_ack 2, Basic_ack 3]\<rparr>) ''X'' = None"
    by blast+
  from ty fin have ne: "\<not> evicted sample_lib 600 (delivery_at Y_true 2 2 ''Y'' 4)
     \<lparr>buffer = [''Y'' \<mapsto> \<lparr>y_true = None, y_pred = Some 5\<rparr>], buffer_ts = [''Y'' \<mapsto> 0],
        metric_log = [], channel = [Basic_ack 1]\<rparr> ''Y''"
    and b_y: "buffer (deliver sample_lib 600 (delivery_at Y_true 2 2 ''Y'' 4)
     \<lparr>buffer = [''Y'' \<mapsto> \<lparr>y_true = None, y_pred = Some 5\<rparr>], buffer_ts = [''Y'' \<mapsto> 0],
        metric_log = [], channel = [Basic_ack 1]\<rparr>) ''Y'' = None"
    by blast+
  from x sx z sz ev nf bx fin ne b_y log show ?thesis
    by (intro conjI)
qed

subsection \<open>C7: the acknowledgement comes last\<close>

text \<open>
  Claim C7, as stated, fails: \<^verbatim>\<open>ch.basic_ack\<close> is the last statement inside the
  \<^verbatim>\<open>try\<close> block, so when that call raises the \<^verbatim>\<open>except\<close> clause calls
  \<^verbatim>\<open>basic_nack\<close> for the same delivery tag, and the handler has made both calls.
\<close>

theorem ack_then_nack_counterexample:
  "channel (on_y_true sample_lib 600
              \<lparr>clock_insert = 0, clock_sweep = 0, csv_io = Written, ack_call = Raises\<rparr> 1
              (message (JStr ''X'') (JFloat 10)) init_world)
     = [Basic_ack 1, Basic_nack 1 True]"
  by (simp add: handlers_fresh(1) [where k = "''X''" and v = 10] ack_calls_def)

text \<open>
  Claim C7, amended. For every delivery, on either queue: when the message does not
  decode, or \<^verbatim>\<open>try_finalize\<close> (called on the state with the value stored) raises, the
  handler calls \<^verbatim>\<open>basic_nack\<close> with \<^verbatim>\<open>requeue=True\<close> on the state reached at the raise,
  and does not call \<^verbatim>\<open>basic_ack\<close>. Otherwise it calls \<^verbatim>\<open>basic_ack\<close> on the state that
  \<^verbatim>\<open>cleanup_old_records\<close> left: the value is stored, the finalization attempted and the
  sweep made before the call, as the state shows also when the call raises. When the call
  of \<^verbatim>\<open>basic_ack\<close> returns it is the only call on the channel; when it raises the
  handler calls \<^verbatim>\<open>basic_nack\<close> with \<^verbatim>\<open>requeue=True\<close> after it. The handler calls
  \<^verbatim>\<open>basic_ack\<close> exactly when nothing raised before it.
\<close>

theorem ack_after_sweep_nack_on_any_raise:
  "(decode_message lib (d_body d) = Inl err \<longrightarrow>
      deliver lib ttl d w = w\<lparr>channel := channel w @ [Basic_nack (d_tag d) True]\<rparr>) \<and>
   (decode_message lib (d_body d) = Inr (k, v) \<and>
    try_finalize (csv_io (d_env d)) k
      (upsert (d_queue d) k v (clock_insert (d_env d)) w) = (Some err, w3) \<longrightarrow>
      deliver lib ttl d w = w3\<lparr>channel := channel w @ [Basic_nack (d_tag d) True]\<rparr>) \<and>
   (decode_message lib (d_body d) = Inr (k, v) \<and>
    try_finalize (csv_io (d_env d)) k
      (upsert (d_queue d) k v (clock_insert (d_env d)) w) = (None, w3) \<and>
    ack_call (d_env d) = Returns \<longrightarrow>
      deliver lib ttl d w =
        (cleanup_old_records ttl (clock_sweep (d_env d)) w3)
          \<lparr>channel := channel w @ [Basic_ack (d_tag d)]\<rparr>) \<and>
   (decode_message lib (d_body d) = Inr (k, v) \<and>
    try_finalize (csv_io (d_env d)) k
      (upsert (d_queue d) k v (clock_insert (d_env d)) w) = (None, w3) \<and>
    ack_call (d_env d) = Raises \<longrightarrow>
      deliver lib ttl d w =
        (cleanup_old_records ttl (clock_sweep (d_env d)) w3)
          \<lparr>channel := channel w @ [Basic_ack (d_tag d), Basic_nack (d_tag d) True]\<rparr>) \<and>
   ((\<exists>k v w3. decode_message lib (d_body d) = Inr (k, v) \<and>
        try_finalize (csv_io (d_env d)) k
          (upsert (d_queue d) k v (clock_insert (d_env d)) w) = (None, w3))
      = (Basic_ack (d_tag d) \<in> set (drop (length (channel w)) (channel (deliver lib ttl d w))))) \<and>
   (channel (deliver lib ttl d w) = channel w @ [Basic_ack (d_tag d)] \<or>
    channel (deliver lib ttl d w) = channel w @ [Basic_nack (d_tag d) True] \<or>
    ack_call (d_env d) = Raises \<and>
    channel (deliver lib ttl d w) = channel w @ [Basic_ack (d_tag d), Basic_nack (d_tag d) True])"
proof (cases "decode_message lib (d_body d)")
  case (Inl e)
  then show ?thesis
    by (simp add: deliver_undecoded basic_nack_def)
next
  case (Inr kv)
  obtain k' v' where kv: "kv = (k', v')" by (cases kv)
  let ?w2 = "upsert (d_queue d) k' v' (clock_insert (d_env d)) w"
  obtain r w3' where tf: "try_finalize (csv_io (d_env d)) k' ?w2 = (r, w3')"
    by (cases "try_finalize (csv_io (d_env d)) k' ?w2")
  note dec = Inr [unfolded kv]
  note cases = deliver_after_finalize [OF dec tf, where ttl = ttl]
  show ?thesis
  proof (cases r)
    case (Some e)
    with dec tf cases(3) [OF Some] show ?thesis
      by auto
  next
    case None
    show ?thesis
    proof (cases "ack_call (d_env d)")
      case Returns
      with dec tf None cases(1) [OF None Returns] show ?thesis
        by auto
    next
      case Raises
      with dec tf None cases(2) [OF None Raises] show ?thesis
        by auto
    qed
  qed
qed
theorem ack_after_sweep_nack_on_any_raise_witness:
  "deliver sample_lib 600
     \<lparr>d_queue = Y_true, d_env = at_time 3, d_tag = 7, d_body = Some (JArr [])\<rparr> init_world
     = init_world\<lparr>channel := [Basic_nack 7 True]\<rparr> \<and>
   channel (deliver sample_lib 600
     \<lparr>d_queue = Y_pred,
          d_env = \<lparr>clock_insert = 5, clock_sweep = 5, csv_io = Failed_before_write, ack_call = Returns\<rparr>,
          d_tag = 2, d_body = message (JStr ''X'') (JFloat 7)\<rparr>
     \<lparr>buffer = [''X'' \<mapsto> \<lparr>y_true = Some 10, y_pred = None\<rparr>], buffer_ts = [''X'' \<mapsto> 0],
          metric_log = [], channel = [Basic_ack 1]\<rparr>) = [Basic_ack 1, Basic_nack 2 True] \<and>
   buffer (deliver sample_lib 600
     \<lparr>d_queue = Y_pred,
          d_env = \<lparr>clock_insert = 5, clock_sweep = 5, csv_io = Failed_before_write, ack_call = Returns\<rparr>,
          d_tag = 2, d_body = message (JStr ''X'') (JFloat 7)\<rparr>
     \<lparr>buffer = [''X'' \<mapsto> \<lparr>y_true = Some 10, y_pred = None\<rparr>], buffer_ts = [''X'' \<mapsto> 0],
          metric_log = [], channel = [Basic_ack 1]\<rparr>) ''X'' = Some \<lparr>y_true = Some 10, y_pred = Some 7\<rparr> \<and>
   channel (deliver sample_lib 600 (delivery_at Y_true 0 1 ''X'' 10) init_world) = [Basic_ack 1] \<and>
   buffer (deliver sample_lib 600 (delivery_at Y_true 0 1 ''X'' 10) init_world) ''X''
     = Some \<lparr>y_true = Some 10, y_pred = None\<rparr> \<and>
   channel (deliver sample_lib 600
     \<lparr>d_queue = Y_true,
          d_env = \<lparr>clock_insert = 700, clock_sweep = 700, csv_io = Written, ack_call = Raises\<rparr>,
          d_tag = 4, d_body = message (JStr ''X'') (JFloat 10)\<rparr>
     \<lparr>buffer = [''Z'' \<mapsto> \<lparr>y_true = Some 1, y_pred = None\<rparr>], buffer_ts = [''Z'' \<mapsto> 0],
          metric_log = [], channel = []\<rparr>) = [Basic_ack 4, Basic_nack 4 True] \<and>
   buffer (deliver sample_lib 600
     \<lparr>d_queue = Y_true,
          d_env = \<lparr>clock_insert = 700, clock_sweep = 700, csv_io = Written, ack_call = Raises\<rparr>,
          d_tag = 4, d_body = message (JStr ''X'') (JFloat 10)\<rparr>
     \<lparr>buffer = [''Z'' \<mapsto> \<lparr>y_true = Some 1, y_pred = None\<rparr>], buffer_ts = [''Z'' \<mapsto> 0],
          metric_log = [], channel = []\<rparr>) ''Z'' = None \<and>
   buffer (deliver sample_lib 600
     \<lparr>d_queue = Y_true,
          d_env = \<lparr>clock_insert = 700, clock_sweep = 700, csv_io = Written, ack_call = Raises\<rparr>,
          d_tag = 4, d_body = message (JStr ''X'') (JFloat 10)\<rparr>
     \<lparr>buffer = [''Z'' \<mapsto> \<lparr>y_true = Some 1, y_pred = None\<rparr>], buffer_ts = [''Z'' \<mapsto> 0],
          metric_log = [], channel = []\<rparr>) ''X'' = Some \<lparr>y_true = Some 10, y_pred = None\<rparr>"
proof -
  have a: "deliver sample_lib 600
     \<lparr>d_queue = Y_true, d_env = at_time 3, d_tag = 7, d_body = Some (JArr [])\<rparr> init_world
     = init_world\<lparr>channel := [Basic_nack 7 True]\<rparr>"
    using ack_after_sweep_nack_on_any_raise
            [where lib = sample_lib and ttl = 600 and w = init_world and err = TypeError
               and d = "\<lparr>d_queue = Y_true, d_env = at_time 3, d_tag = 7, d_body = Some (JArr [])\<rparr>"]
    by (simp add: decode_message_def)
  have b: "deliver sample_lib 600
     \<lparr>d_queue = Y_pred,
          d_env = \<lparr>clock_insert = 5, clock_sweep = 5, csv_io = Failed_before_write, ack_call = Returns\<rparr>,
          d_tag = 2, d_body = message (JStr ''X'') (JFloat 7)\<rparr>
     \<lparr>buffer = [''X'' \<mapsto> \<lparr>y_true = Some 10, y_pred = None\<rparr>], buffer_ts = [''X'' \<mapsto> 0],
          metric_log = [], channel = [Basic_ack 1]\<rparr>
     = (upsert Y_pred ''X'' 7 5
         \<lparr>buffer = [''X'' \<mapsto> \<lparr>y_true = Some 10, y_pred = None\<rparr>], buffer_ts = [''X'' \<mapsto> 0],
          metric_log = [], channel = [Basic_ack 1]\<rparr>)\<lparr>channel := [Basic_ack 1, Basic_nack 2 True]\<rparr>"
    using ack_after_sweep_nack_on_any_raise
            [where lib = sample_lib and ttl = 600 and k = "''X''" and v = 7 and err = OSError
               and w = "\<lparr>buffer = [''X'' \<mapsto> \<lparr>y_true = Some 10, y_pred = None\<rparr>], buffer_ts = [''X'' \<mapsto> 0],
          metric_log = [], channel = [Basic_ack 1]\<rparr>"
               and d = "\<lparr>d_queue = Y_pred,
          d_env = \<lparr>clock_insert = 5, clock_sweep = 5, csv_io = Failed_before_write, ack_call = Returns\<rparr>,
          d_tag = 2, d_body = message (JStr ''X'') (JFloat 7)\<rparr>"
               and ?w3.0 = "upsert Y_pred ''X'' 7 5
         \<lparr>buffer = [''X'' \<mapsto> \<lparr>y_true = Some 10, y_pred = None\<rparr>], buffer_ts = [''X'' \<mapsto> 0],
          metric_log = [], channel = [Basic_ack 1]\<rparr>"]
    by (simp add: try_finalize_def append_metric_row_def set_side_def)
  have c: "deliver sample_lib 600 (delivery_at Y_true 0 1 ''X'' 10) init_world
     = (cleanup_old_records 600 0 (upsert Y_true ''X'' 10 0 init_world))\<lparr>channel := [Basic_ack 1]\<rparr>"
    using ack_after_sweep_nack_on_any_raise
            [where lib = sample_lib and ttl = 600 and k = "''X''" and v = 10
               and w = init_world and d = "(delivery_at Y_true 0 1 ''X'' 10)"
               and ?w3.0 = "upsert Y_true ''X'' 10 0 init_world"]
    by (simp add: try_finalize_def set_side_def at_time_def)
  have d: "deliver sample_lib 600
     \<lparr>d_queue = Y_true,
          d_env = \<lparr>clock_insert = 700, clock_sweep = 700, csv_io = Written, ack_call = Raises\<rparr>,
          d_tag = 4, d_body = message (JStr ''X'') (JFloat 10)\<rparr>
     \<lparr>buffer = [''Z'' \<mapsto> \<lparr>y_true = Some 1, y_pred = None\<rparr>], buffer_ts = [''Z'' \<mapsto> 0],
          metric_log = [], channel = []\<rparr>
     = (cleanup_old_records 600 700 (upsert Y_true ''X'' 10 700
         \<lparr>buffer = [''Z'' \<mapsto> \<lparr>y_true = Some 1, y_pred = None\<rparr>], buffer_ts = [''Z'' \<mapsto> 0],
          metric_log = [], channel = []\<rparr>))\<lparr>channel := [Basic_ack 4, Basic_nack 4 True]\<rparr>"
    using ack_after_sweep_nack_on_any_raise
            [where lib = sample_lib and ttl = 600 and k = "''X''" and v = 10
               and w = "\<lparr>buffer = [''Z'' \<mapsto> \<lparr>y_true = Some 1, y_pred = None\<rparr>], buffer_ts = [''Z'' \<mapsto> 0],
          metric_log = [], channel = []\<rparr>"
               and d = "\<lparr>d_queue = Y_true,
          d_env = \<lparr>clock_insert = 700, clock_sweep = 700, csv_io = Written, ack_call = Raises\<rparr>,
          d_tag = 4, d_body = message (JStr ''X'') (JFloat 10)\<rparr>"
               and ?w3.0 = "upsert Y_true ''X'' 10 700
         \<lparr>buffer = [''Z'' \<mapsto> \<lparr>y_true = Some 1, y_pred = None\<rparr>], buffer_ts = [''Z'' \<mapsto> 0],
          metric_log = [], channel = []\<rparr>"]
    by (simp add: try_finalize_def set_side_def)
  show ?thesis
    unfolding a b c d
    by (simp add: set_side_def to_delete_def)
qed

subsection \<open>C4: a side delivered again\<close>

text \<open>
  Claim C4, as stated, fails in its last part. Let an id hold y_pred = 5. A y_true
  message is delivered and the write to the CSV file raises after the row has reached
  the file: the entry stays, with both values, and the message is rejected with requeue.
  The redelivered message finds the entry, and its write returns: the file holds two rows
  for the one join.
\<close>

theorem redelivery_after_failed_write_counterexample:
  "buffer (deliver sample_lib 600
      \<lparr>d_queue = Y_true,
        d_env = \<lparr>clock_insert = 2, clock_sweep = 2, csv_io = Failed_after_write, ack_call = Returns\<rparr>,
        d_tag = 2, d_body = message (JStr ''Y'') (JFloat 4)\<rparr>
      \<lparr>buffer = [''Y'' \<mapsto> \<lparr>y_true = None, y_pred = Some 5\<rparr>], buffer_ts = [''Y'' \<mapsto> 0],
        metric_log = [], channel = [Basic_ack 1]\<rparr>) ''Y''
     = Some \<lparr>y_true = Some 4, y_pred = Some 5\<rparr> \<and>
   metric_log
     (deliver sample_lib 600 (delivery_at Y_true 3 3 ''Y'' 4)
        (deliver sample_lib 600
      \<lparr>d_queue = Y_true,
        d_env = \<lparr>clock_insert = 2, clock_sweep = 2, csv_io = Failed_after_write, ack_call = Returns\<rparr>,
        d_tag = 2, d_body = message (JStr ''Y'') (JFloat 4)\<rparr>
      \<lparr>buffer = [''Y'' \<mapsto> \<lparr>y_true = None, y_pred = Some 5\<rparr>], buffer_ts = [''Y'' \<mapsto> 0],
        metric_log = [], channel = [Basic_ack 1]\<rparr>))
     = [(''Y'', 4, 5, 1), (''Y'', 4, 5, 1)]"
  by (simp add: handler_defs at_time_def)

text \<open>
  Claim C4, amended. Let an id have an entry. A delivery for that id calls
  \<^verbatim>\<open>try_finalize\<close> on the state that differs from the one before in the delivered field
  of that entry only: the other field and the timestamp are as before and no key is
  added. After the delivery the entry is either gone or is that entry with its
  timestamp, no key has been added, and at most one row has been appended. While the
  other side is unset no row is appended and the message is acknowledged after the
  sweep; when the other side arrives next and the write returns, one row is appended for
  the id, with the value delivered last. When the other side is set, which is the state
  a failed write leaves, the delivery appends one row and deletes the entry if the write
  returns; it appends nothing and keeps the entry if the write raises before the row
  reaches the file; it appends one row and keeps the entry if the write raises after
  that, so that a later redelivery appends a second row.
\<close>

theorem redelivery_writes_own_field_only:
  assumes "buffer w k = Some e"
    and "buffer_ts w k = Some ts"
    and "decoded lib d = Some (k, v)"
  shows "deliver lib ttl d w =
           finish ttl (d_env d) (d_tag d)
             (try_finalize (csv_io (d_env d)) k
                (w\<lparr>buffer := (buffer w)(k \<mapsto> set_side (d_queue d) v e)\<rparr>)) \<and>
         (get_side (other_queue (d_queue d)) e = None \<longrightarrow>
            deliver lib ttl d w =
              acknowledge (d_env d) (d_tag d)
                (cleanup_old_records ttl (clock_sweep (d_env d))
                   (w\<lparr>buffer := (buffer w)(k \<mapsto> set_side (d_queue d) v e)\<rparr>))) \<and>
         get_side (d_queue d) (set_side (d_queue d) v e) = Some v \<and>
         get_side (other_queue (d_queue d)) (set_side (d_queue d) v e)
           = get_side (other_queue (d_queue d)) e \<and>
         dom (buffer (deliver lib ttl d w)) \<subseteq> dom (buffer w) \<and>
         (buffer (deliver lib ttl d w) k = None \<or>
          buffer (deliver lib ttl d w) k = Some (set_side (d_queue d) v e) \<and>
          buffer_ts (deliver lib ttl d w) k = Some ts) \<and>
         length (metric_log (deliver lib ttl d w)) \<le> length (metric_log w) + 1 \<and>
         (get_side (other_queue (d_queue d)) e = None \<longrightarrow>
            metric_log (deliver lib ttl d w) = metric_log w \<and>
            (clock_sweep (d_env d) - ts \<le> real_of_int ttl \<longrightarrow>
               buffer (deliver lib ttl d w) k = Some (set_side (d_queue d) v e) \<and>
               buffer_ts (deliver lib ttl d w) k = Some ts \<and>
               (decoded lib d2 = Some (k, u) \<and> d_queue d2 = other_queue (d_queue d) \<and>
                csv_io (d_env d2) = Written \<longrightarrow>
                  rows_for k (deliver lib ttl d2 (deliver lib ttl d w))
                    = rows_for k w @ [(k, if d_queue d = Y_true then v else u,
                  if d_queue d = Y_true then u else v,
                  \<bar>(if d_queue d = Y_true then v else u) - (if d_queue d = Y_true then u else v)\<bar>)]))) \<and>
         (get_side (other_queue (d_queue d)) e = Some u \<longrightarrow>
            (csv_io (d_env d) = Written \<longrightarrow>
               metric_log (deliver lib ttl d w) = metric_log w @ [(k, if d_queue d = Y_true then v else u,
                  if d_queue d = Y_true then u else v,
                  \<bar>(if d_queue d = Y_true then v else u) - (if d_queue d = Y_true then u else v)\<bar>)] \<and>
               buffer (deliver lib ttl d w) k = None \<and>
               buffer_ts (deliver lib ttl d w) k = None) \<and>
            (csv_io (d_env d) = Failed_before_write \<longrightarrow>
               metric_log (deliver lib ttl d w) = metric_log w \<and>
               buffer (deliver lib ttl d w) k = Some (set_side (d_queue d) v e) \<and>
               buffer_ts (deliver lib ttl d w) k = Some ts) \<and>
            (csv_io (d_env d) = Failed_after_write \<longrightarrow>
               metric_log (deliver lib ttl d w) = metric_log w @ [(k, if d_queue d = Y_true then v else u,
                  if d_queue d = Y_true then u else v,
                  \<bar>(if d_queue d = Y_true then v else u) - (if d_queue d = Y_true then u else v)\<bar>)] \<and>
               buffer (deliver lib ttl d w) k = Some (set_side (d_queue d) v e) \<and>
               buffer_ts (deliver lib ttl d w) k = Some ts))"
proof -
  note frame = deliver_present [OF assms(1) assms(3), of ttl]
  note sides = set_side_frame [of "d_queue d" v e]
  note dom = deliver_present_dom [OF assms(1) assms(3), of ttl]
  note after = deliver_present_entry [OF assms, of ttl]
  have unset: "deliver lib ttl d w =
              acknowledge (d_env d) (d_tag d)
                (cleanup_old_records ttl (clock_sweep (d_env d))
                   (w\<lparr>buffer := (buffer w)(k \<mapsto> set_side (d_queue d) v e)\<rparr>)) \<and>
            metric_log (deliver lib ttl d w) = metric_log w \<and>
            (clock_sweep (d_env d) - ts \<le> real_of_int ttl \<longrightarrow>
               buffer (deliver lib ttl d w) k = Some (set_side (d_queue d) v e) \<and>
               buffer_ts (deliver lib ttl d w) k = Some ts \<and>
               (decoded lib d2 = Some (k, u) \<and> d_queue d2 = other_queue (d_queue d) \<and>
                csv_io (d_env d2) = Written \<longrightarrow>
                  rows_for k (deliver lib ttl d2 (deliver lib ttl d w))
                    = rows_for k w @ [(k, if d_queue d = Y_true then v else u,
                  if d_queue d = Y_true then u else v,
                  \<bar>(if d_queue d = Y_true then v else u) - (if d_queue d = Y_true then u else v)\<bar>)]))"
    if other: "get_side (other_queue (d_queue d)) e = None"
  proof -
    note again = deliver_again [OF assms(1) other assms(3), of ttl]
    have log: "metric_log (deliver lib ttl d w) = metric_log w"
      by (simp add: again)
    have young: "buffer (deliver lib ttl d w) k = Some (set_side (d_queue d) v e)"
                "buffer_ts (deliver lib ttl d w) k = Some ts"
      if "clock_sweep (d_env d) - ts \<le> real_of_int ttl"
      using that assms(2) by (simp_all add: again to_delete_def)
    have row: "rows_for k (deliver lib ttl d2 (deliver lib ttl d w))
                    = rows_for k w @ [(k, if d_queue d = Y_true then v else u,
                  if d_queue d = Y_true then u else v,
                  \<bar>(if d_queue d = Y_true then v else u) - (if d_queue d = Y_true then u else v)\<bar>)]"
      if y: "clock_sweep (d_env d) - ts \<le> real_of_int ttl"
        and d2: "decoded lib d2 = Some (k, u)" "d_queue d2 = other_queue (d_queue d)"
                "csv_io (d_env d2) = Written"
    proof -
      have both:
        "y_true (set_side (d_queue d2) u (set_side (d_queue d) v e))
           = Some (if d_queue d = Y_true then v else u)"
        "y_pred (set_side (d_queue d2) u (set_side (d_queue d) v e))
           = Some (if d_queue d = Y_true then u else v)"
        using d2(2) by (cases "d_queue d"; simp add: set_side_def other_queue_def)+
      from deliver_second_side(1) [OF young(1) [OF y] d2(1) both d2(3), of ttl] log
      show ?thesis
        by (simp add: rows_for_def)
    qed
    from log young row again show ?thesis
      by blast
  qed
  have set: "(csv_io (d_env d) = Written \<longrightarrow>
               metric_log (deliver lib ttl d w) = metric_log w @ [(k, if d_queue d = Y_true then v else u,
                  if d_queue d = Y_true then u else v,
                  \<bar>(if d_queue d = Y_true then v else u) - (if d_queue d = Y_true then u else v)\<bar>)] \<and>
               buffer (deliver lib ttl d w) k = None \<and>
               buffer_ts (deliver lib ttl d w) k = None) \<and>
            (csv_io (d_env d) = Failed_before_write \<longrightarrow>
               metric_log (deliver lib ttl d w) = metric_log w \<and>
               buffer (deliver lib ttl d w) k = Some (set_side (d_queue d) v e) \<and>
               buffer_ts (deliver lib ttl d w) k = Some ts) \<and>
            (csv_io (d_env d) = Failed_after_write \<longrightarrow>
               metric_log (deliver lib ttl d w) = metric_log w @ [(k, if d_queue d = Y_true then v else u,
                  if d_queue d = Y_true then u else v,
                  \<bar>(if d_queue d = Y_true then v else u) - (if d_queue d = Y_true then u else v)\<bar>)] \<and>
               buffer (deliver lib ttl d w) k = Some (set_side (d_queue d) v e) \<and>
               buffer_ts (deliver lib ttl d w) k = Some ts)"
    if other: "get_side (other_queue (d_queue d)) e = Some u"
    using deliver_both_set [OF assms other refl refl, of ttl] by blast
  from frame sides dom after unset set show ?thesis
    by blast
qed

theorem redelivery_writes_own_field_only_witness:
  "buffer (deliver sample_lib 600 (delivery_at Y_pred 1 2 ''Y'' 5)
     \<lparr>buffer = [''Y'' \<mapsto> \<lparr>y_true = None, y_pred = Some 5\<rparr>], buffer_ts = [''Y'' \<mapsto> 0],
        metric_log = [], channel = [Basic_ack 1]\<rparr>) ''Y''
     = Some \<lparr>y_true = None, y_pred = Some 5\<rparr> \<and>
   buffer_ts (deliver sample_lib 600 (delivery_at Y_pred 1 2 ''Y'' 5)
     \<lparr>buffer = [''Y'' \<mapsto> \<lparr>y_true = None, y_pred = Some 5\<rparr>], buffer_ts = [''Y'' \<mapsto> 0],
        metric_log = [], channel = [Basic_ack 1]\<rparr>) ''Y'' = Some 0 \<and>
   metric_log (deliver sample_lib 600 (delivery_at Y_pred 1 2 ''Y'' 5)
     \<lparr>buffer = [''Y'' \<mapsto> \<lparr>y_true = None, y_pred = Some 5\<rparr>], buffer_ts = [''Y'' \<mapsto> 0],
        metric_log = [], channel = [Basic_ack 1]\<rparr>) = [] \<and>
   rows_for ''Y''
     (deliver sample_lib 600 (delivery_at Y_true 2 3 ''Y'' 4)
        (deliver sample_lib 600 (delivery_at Y_pred 1 2 ''Y'' 5)
     \<lparr>buffer = [''Y'' \<mapsto> \<lparr>y_true = None, y_pred = Some 5\<rparr>], buffer_ts = [''Y'' \<mapsto> 0],
        metric_log = [], channel = [Basic_ack 1]\<rparr>))
     = [(''Y'', 4, 5, 1)] \<and>
   metric_log (deliver sample_lib 600 (delivery_at Y_true 3 3 ''Y'' 4)
     \<lparr>buffer = [''Y'' \<mapsto> \<lparr>y_true = Some 4, y_pred = Some 5\<rparr>], buffer_ts = [''Y'' \<mapsto> 0],
        metric_log = [], channel = [Basic_ack 1, Basic_nack 2 True]\<rparr>) = [(''Y'', 4, 5, 1)] \<and>
   buffer (deliver sample_lib 600 (delivery_at Y_true 3 3 ''Y'' 4)
     \<lparr>buffer = [''Y'' \<mapsto> \<lparr>y_true = Some 4, y_pred = Some 5\<rparr>], buffer_ts = [''Y'' \<mapsto> 0],
        metric_log = [], channel = [Basic_ack 1, Basic_nack 2 True]\<rparr>) ''Y'' = None \<and>
   metric_log (deliver sample_lib 600
     \<lparr>d_queue = Y_true,
        d_env = \<lparr>clock_insert = 2, clock_sweep = 2, csv_io = Failed_before_write, ack_call = Returns\<rparr>,
        d_tag = 2, d_body = message (JStr ''Y'') (JFloat 4)\<rparr>
     \<lparr>buffer = [''Y'' \<mapsto> \<lparr>y_true = Some 4, y_pred = Some 5\<rparr>], buffer_ts = [''Y'' \<mapsto> 0],
        metric_log = [], channel = [Basic_ack 1, Basic_nack 2 True]\<rparr>) = [] \<and>
   buffer (deliver sample_lib 600
     \<lparr>d_queue = Y_true,
        d_env = \<lparr>clock_insert = 2, clock_sweep = 2, csv_io = Failed_before_write, ack_call = Returns\<rparr>,
        d_tag = 2, d_body = message (JStr ''Y'') (JFloat 4)\<rparr>
     \<lparr>buffer = [''Y'' \<mapsto> \<lparr>y_true = Some 4, y_pred = Some 5\<rparr>], buffer_ts = [''Y'' \<mapsto> 0],
        metric_log = [], channel = [Basic_ack 1, Basic_nack 2 True]\<rparr>) ''Y'' = Some \<lparr>y_true = Some 4, y_pred = Some 5\<rparr> \<and>
   metric_log (deliver sample_lib 600
     \<lparr>d_queue = Y_true,
        d_env = \<lparr>clock_insert = 2, clock_sweep = 2, csv_io = Failed_after_write, ack_call = Returns\<rparr>,
        d_tag = 2, d_body = message (JStr ''Y'') (JFloat 4)\<rparr>
     \<lparr>buffer = [''Y'' \<mapsto> \<lparr>y_true = Some 4, y_pred = Some 5\<rparr>], buffer_ts = [''Y'' \<mapsto> 0],
        metric_log = [], channel = [Basic_ack 1, Basic_nack 2 True]\<rparr>) = [(''Y'', 4, 5, 1)] \<and>
   buffer (deliver sample_lib 600
     \<lparr>d_queue = Y_true,
        d_env = \<lparr>clock_insert = 2, clock_sweep = 2, csv_io = Failed_after_write, ack_call = Returns\<rparr>,
        d_tag = 2, d_body = message (JStr ''Y'') (JFloat 4)\<rparr>
     \<lparr>buffer = [''Y'' \<mapsto> \<lparr>y_true = Some 4, y_pred = Some 5\<rparr>], buffer_ts = [''Y'' \<mapsto> 0],
        metric_log = [], channel = [Basic_ack 1, Basic_nack 2 True]\<rparr>) ''Y'' = Some \<lparr>y_true = Some 4, y_pred = Some 5\<rparr>"
proof -
  have none: "rows_for ''Y''
     \<lparr>buffer = [''Y'' \<mapsto> \<lparr>y_true = None, y_pred = Some 5\<rparr>], buffer_ts = [''Y'' \<mapsto> 0],
        metric_log = [], channel = [Basic_ack 1]\<rparr> = []"
    by (simp add: rows_for_def)
  have dec: "decoded sample_lib
     \<lparr>d_queue = Y_true,
        d_env = \<lparr>clock_insert = 2, clock_sweep = 2, csv_io = Failed_before_write, ack_call = Returns\<rparr>,
        d_tag = 2, d_body = message (JStr ''Y'') (JFloat 4)\<rparr> = Some (''Y'', 4)"
    "decoded sample_lib
     \<lparr>d_queue = Y_true,
        d_env = \<lparr>clock_insert = 2, clock_sweep = 2, csv_io = Failed_after_write, ack_call = Returns\<rparr>,
        d_tag = 2, d_body = message (JStr ''Y'') (JFloat 4)\<rparr> = Some (''Y'', 4)"
    by (simp_all add: decoded_def)
  note unset = redelivery_writes_own_field_only
            [where w = "\<lparr>buffer = [''Y'' \<mapsto> \<lparr>y_true = None, y_pred = Some 5\<rparr>], buffer_ts = [''Y'' \<mapsto> 0],
        metric_log = [], channel = [Basic_ack 1]\<rparr>"
               and k = "''Y''" and e = "\<lparr>y_true = None, y_pred = Some 5\<rparr>"
               and ts = 0 and d = "delivery_at Y_pred 1 2 ''Y'' 5" and lib = sample_lib
               and v = 5 and ttl = 600 and ?d2.0 = "delivery_at Y_true 2 3 ''Y'' 4" and u = 4,
             THEN conjunct2, THEN conjunct2]
  note written = redelivery_writes_own_field_only
            [where w = "\<lparr>buffer = [''Y'' \<mapsto> \<lparr>y_true = Some 4, y_pred = Some 5\<rparr>], buffer_ts = [''Y'' \<mapsto> 0],
        metric_log = [], channel = [Basic_ack 1, Basic_nack 2 True]\<rparr>"
               and k = "''Y''" and e = "\<lparr>y_true = Some 4, y_pred = Some 5\<rparr>"
               and ts = 0 and d = "delivery_at Y_true 3 3 ''Y'' 4" and lib = sample_lib
               and v = 4 and ttl = 600 and ?d2.0 = "delivery_at Y_true 2 3 ''Y'' 4" and u = 5,
             THEN conjunct2, THEN conjunct2]
  note before = redelivery_writes_own_field_only
            [where w = "\<lparr>buffer = [''Y'' \<mapsto> \<lparr>y_true = Some 4, y_pred = Some 5\<rparr>], buffer_ts = [''Y'' \<mapsto> 0],
        metric_log = [], channel = [Basic_ack 1, Basic_nack 2 True]\<rparr>"
               and k = "''Y''" and e = "\<lparr>y_true = Some 4, y_pred = Some 5\<rparr>"
               and ts = 0 and lib = sample_lib
               and d = "\<lparr>d_queue = Y_true,
        d_env = \<lparr>clock_insert = 2, clock_sweep = 2, csv_io = Failed_before_write, ack_call = Returns\<rparr>,
        d_tag = 2, d_body = message (JStr ''Y'') (JFloat 4)\<rparr>"
               and v = 4 and ttl = 600 and ?d2.0 = "delivery_at Y_true 2 3 ''Y'' 4" and u = 5,
             THEN conjunct2, THEN conjunct2]
  note after = redelivery_writes_own_field_only
            [where w = "\<lparr>buffer = [''Y'' \<mapsto> \<lparr>y_true = Some 4, y_pred = Some 5\<rparr>], buffer_ts = [''Y'' \<mapsto> 0],
        metric_log = [], channel = [Basic_ack 1, Basic_nack 2 True]\<rparr>"
               and k = "''Y''" and e = "\<lparr>y_true = Some 4, y_pred = Some 5\<rparr>"
               and ts = 0 and lib = sample_lib
               and d = "\<lparr>d_queue = Y_true,
        d_env = \<lparr>clock_insert = 2, clock_sweep = 2, csv_io = Failed_after_write, ack_call = Returns\<rparr>,
        d_tag = 2, d_body = message (JStr ''Y'') (JFloat 4)\<rparr>"
               and v = 4 and ttl = 600 and ?d2.0 = "delivery_at Y_true 2 3 ''Y'' 4" and u = 5,
             THEN conjunct2, THEN conjunct2]
  have a: "buffer (deliver sample_lib 600 (delivery_at Y_pred 1 2 ''Y'' 5)
     \<lparr>buffer = [''Y'' \<mapsto> \<lparr>y_true = None, y_pred = Some 5\<rparr>], buffer_ts = [''Y'' \<mapsto> 0],
        metric_log = [], channel = [Basic_ack 1]\<rparr>) ''Y''
     = Some \<lparr>y_true = None, y_pred = Some 5\<rparr> \<and>
   buffer_ts (deliver sample_lib 600 (delivery_at Y_pred 1 2 ''Y'' 5)
     \<lparr>buffer = [''Y'' \<mapsto> \<lparr>y_true = None, y_pred = Some 5\<rparr>], buffer_ts = [''Y'' \<mapsto> 0],
        metric_log = [], channel = [Basic_ack 1]\<rparr>) ''Y'' = Some 0 \<and>
   metric_log (deliver sample_lib 600 (delivery_at Y_pred 1 2 ''Y'' 5)
     \<lparr>buffer = [''Y'' \<mapsto> \<lparr>y_true = None, y_pred = Some 5\<rparr>], buffer_ts = [''Y'' \<mapsto> 0],
        metric_log = [], channel = [Basic_ack 1]\<rparr>) = [] \<and>
   rows_for ''Y''
     (deliver sample_lib 600 (delivery_at Y_true 2 3 ''Y'' 4)
        (deliver sample_lib 600 (delivery_at Y_pred 1 2 ''Y'' 5)
     \<lparr>buffer = [''Y'' \<mapsto> \<lparr>y_true = None, y_pred = Some 5\<rparr>], buffer_ts = [''Y'' \<mapsto> 0],
        metric_log = [], channel = [Basic_ack 1]\<rparr>))
     = [(''Y'', 4, 5, 1)]"
    using unset none
    by (simp add: get_side_def set_side_def other_queue_def at_time_def to_delete_def)
  have b: "metric_log (deliver sample_lib 600 (delivery_at Y_true 3 3 ''Y'' 4)
     \<lparr>buffer = [''Y'' \<mapsto> \<lparr>y_true = Some 4, y_pred = Some 5\<rparr>], buffer_ts = [''Y'' \<mapsto> 0],
        metric_log = [], channel = [Basic_ack 1, Basic_nack 2 True]\<rparr>) = [(''Y'', 4, 5, 1)] \<and>
   buffer (deliver sample_lib 600 (delivery_at Y_true 3 3 ''Y'' 4)
     \<lparr>buffer = [''Y'' \<mapsto> \<lparr>y_true = Some 4, y_pred = Some 5\<rparr>], buffer_ts = [''Y'' \<mapsto> 0],
        metric_log = [], channel = [Basic_ack 1, Basic_nack 2 True]\<rparr>) ''Y'' = None"
    using written
    by (simp add: get_side_def set_side_def other_queue_def at_time_def)
  have c: "metric_log (deliver sample_lib 600
     \<lparr>d_queue = Y_true,
        d_env = \<lparr>clock_insert = 2, clock_sweep = 2, csv_io = Failed_before_write, ack_call = Returns\<rparr>,
        d_tag = 2, d_body = message (JStr ''Y'') (JFloat 4)\<rparr>
     \<lparr>buffer = [''Y'' \<mapsto> \<lparr>y_true = Some 4, y_pred = Some 5\<rparr>], buffer_ts = [''Y'' \<mapsto> 0],
        metric_log = [], channel = [Basic_ack 1, Basic_nack 2 True]\<rparr>) = [] \<and>
   buffer (deliver sample_lib 600
     \<lparr>d_queue = Y_true,
        d_env = \<lparr>clock_insert = 2, clock_sweep = 2, csv_io = Failed_before_write, ack_call = Returns\<rparr>,
        d_tag = 2, d_body = message (JStr ''Y'') (JFloat 4)\<rparr>
     \<lparr>buffer = [''Y'' \<mapsto> \<lparr>y_true = Some 4, y_pred = Some 5\<rparr>], buffer_ts = [''Y'' \<mapsto> 0],
        metric_log = [], channel = [Basic_ack 1, Basic_nack 2 True]\<rparr>) ''Y'' = Some \<lparr>y_true = Some 4, y_pred = Some 5\<rparr>"
    using before dec
    by (simp add: get_side_def set_side_def other_queue_def)
  have d: "metric_log (deliver sample_lib 600
     \<lparr>d_queue = Y_true,
        d_env = \<lparr>clock_insert = 2, clock_sweep = 2, csv_io = Failed_after_write, ack_call = Returns\<rparr>,
        d_tag = 2, d_body = message (JStr ''Y'') (JFloat 4)\<rparr>
     \<lparr>buffer = [''Y'' \<mapsto> \<lparr>y_true = Some 4, y_pred = Some 5\<rparr>], buffer_ts = [''Y'' \<mapsto> 0],
        metric_log = [], channel = [Basic_ack 1, Basic_nack 2 True]\<rparr>) = [(''Y'', 4, 5, 1)] \<and>
   buffer (deliver sample_lib 600
     \<lparr>d_queue = Y_true,
        d_env = \<lparr>clock_insert = 2, clock_sweep = 2, csv_io = Failed_after_write, ack_call = Returns\<rparr>,
        d_tag = 2, d_body = message (JStr ''Y'') (JFloat 4)\<rparr>
     \<lparr>buffer = [''Y'' \<mapsto> \<lparr>y_true = Some 4, y_pred = Some 5\<rparr>], buffer_ts = [''Y'' \<mapsto> 0],
        metric_log = [], channel = [Basic_ack 1, Basic_nack 2 True]\<rparr>) ''Y'' = Some \<lparr>y_true = Some 4, y_pred = Some 5\<rparr>"
    using after dec
    by (simp add: get_side_def set_side_def other_queue_def)
  from a b c d show ?thesis
    by (intro conjI) simp_all
qed

end
